theory Spec2Isabelle
  imports Complex_Main "HOL-Library.AList" "HOL-Library.Log_Nat"
begin

section \<open>Values of the host environment\<close>

text \<open>
  The addon receives JavaScript values through N-API. A JavaScript number is a double:
  a finite value, NaN or an infinity. Objects are association lists from property names
  to values; \<open>Has\<close> and \<open>Get\<close> are the two accessors the addon uses. The only typed array
  modelled is \<open>Float32Array\<close>, the one the addon reads.
\<close>

datatype js_number = Finite real | NaN | PosInfinity | NegInfinity

datatype js_value =
    JUndefined
  | JNull
  | JBoolean bool
  | JNumber js_number
  | JString string
  | JFloat32Array "js_number list"
  | JExternal nat
  | JArray "js_value list"
  | JObject "(string \<times> js_value) list"

type_synonym napi_object = "(string \<times> js_value) list"

datatype napi_status = napi_number_expected | napi_boolean_expected

text \<open>
  \<open>TypeError\<close> and \<open>Error\<close> are the two exceptions the addon throws itself, with the
  message of the source. \<open>StatusError\<close> is the exception node-addon-api throws when a
  value accessor (\<open>Int32Value\<close>, \<open>Value\<close>, the conversion of a \<open>Napi::Number\<close> to
  \<open>float\<close>) is applied to a value of another type.
\<close>

datatype napi_error = TypeError string | Error string | StatusError napi_status

fun IsObject :: "js_value \<Rightarrow> bool" where
  "IsObject (JObject ps) = True"
| "IsObject (JArray vs) = True"
| "IsObject (JFloat32Array xs) = True"
| "IsObject v = False"

fun IsString :: "js_value \<Rightarrow> bool" where
  "IsString (JString s) = True"
| "IsString v = False"

fun IsTypedArray :: "js_value \<Rightarrow> bool" where
  "IsTypedArray (JFloat32Array xs) = True"
| "IsTypedArray v = False"

fun IsExternal :: "js_value \<Rightarrow> bool" where
  "IsExternal (JExternal a) = True"
| "IsExternal v = False"

text \<open>\<open>As<Napi::Object>()\<close>: the named properties of an object; arrays carry none of the
  names the addon asks for.\<close>

fun AsObject :: "js_value \<Rightarrow> napi_object" where
  "AsObject (JObject ps) = ps"
| "AsObject v = []"

text \<open>\<open>As<Napi::String>()\<close> converted to \<open>std::string\<close>; the addon only applies it behind
  \<open>IsString\<close>.\<close>

fun AsString :: "js_value \<Rightarrow> string" where
  "AsString (JString s) = s"
| "AsString v = []"

definition Has :: "napi_object \<Rightarrow> string \<Rightarrow> bool" where
  "Has options key = (map_of options key \<noteq> None)"

definition Get :: "napi_object \<Rightarrow> string \<Rightarrow> js_value" where
  "Get options key = (case map_of options key of None \<Rightarrow> JUndefined | Some v \<Rightarrow> v)"

text \<open>Narrowing to the 32-bit \<open>int\<close> of the source, two's complement.\<close>

definition to_int32 :: "int \<Rightarrow> int" where
  "to_int32 x = (x + 2 ^ 31) mod 2 ^ 32 - 2 ^ 31"

text \<open>\<open>Int32Value\<close>: a finite double is truncated towards zero and reduced to its low
  32 bits; NaN and the infinities give 0; any other value raises.\<close>

definition truncate_double :: "real \<Rightarrow> int" where
  "truncate_double x = (if 0 \<le> x then \<lfloor>x\<rfloor> else \<lceil>x\<rceil>)"

fun Int32Value :: "js_value \<Rightarrow> napi_error + int" where
  "Int32Value (JNumber (Finite x)) = Inr (to_int32 (truncate_double x))"
| "Int32Value (JNumber n) = Inr 0"
| "Int32Value v = Inl (StatusError napi_number_expected)"

text \<open>The conversion of a \<open>Napi::Number\<close> to \<open>float\<close>; the rounding of the double to
  single precision is not modelled.\<close>

fun FloatValue :: "js_value \<Rightarrow> napi_error + js_number" where
  "FloatValue (JNumber n) = Inr n"
| "FloatValue v = Inl (StatusError napi_number_expected)"

fun BooleanValue :: "js_value \<Rightarrow> napi_error + bool" where
  "BooleanValue (JBoolean b) = Inr b"
| "BooleanValue v = Inl (StatusError napi_boolean_expected)"

section \<open>The engine's parameter record\<close>

text \<open>
  The fields of \<open>whisper_full_params\<close> that the addon touches. The sampling strategy is
  the integer value of the enumeration; the two enumerators are numbered in the order of
  their declaration. \<open>language\<close> and \<open>initial_prompt\<close> are the two \<open>const char *\<close>
  fields, \<open>None\<close> for the null pointer.
\<close>

definition WHISPER_SAMPLING_GREEDY :: int where
  "WHISPER_SAMPLING_GREEDY = 0"

definition WHISPER_SAMPLING_BEAM_SEARCH :: int where
  "WHISPER_SAMPLING_BEAM_SEARCH = 1"

record whisper_full_params =
  strategy :: int
  n_threads :: int
  n_max_text_ctx :: int
  offset_ms :: int
  duration_ms :: int
  translate :: bool
  no_context :: bool
  no_timestamps :: bool
  single_segment :: bool
  print_special :: bool
  print_progress :: bool
  print_realtime :: bool
  print_timestamps :: bool
  token_timestamps :: bool
  thold_pt :: js_number
  thold_ptsum :: js_number
  max_len :: int
  split_on_word :: bool
  max_tokens :: int
  debug_mode :: bool
  audio_ctx :: int
  tdrz_enable :: bool
  suppress_blank :: bool
  suppress_nst :: bool
  temperature :: js_number
  max_initial_ts :: int
  length_penalty :: js_number
  temperature_inc :: js_number
  entropy_thold :: js_number
  logprob_thold :: js_number
  no_speech_thold :: js_number
  greedy_best_of :: int
  beam_search_beam_size :: int
  detect_language :: bool
  language :: "string option"
  initial_prompt :: "string option"

record FullParamConfig =
  params :: whisper_full_params
  cfg_initial_prompt :: string
  cfg_language :: string
  detailed :: bool
  cfg_token_timestamps :: bool

section \<open>The parameter translator\<close>

text \<open>
  \<open>parse_full_params\<close> is a straight sequence of statements on \<open>cfg\<close>, each of which may
  throw. A statement is a function from the configuration to an error or the updated
  configuration; \<open>run_steps\<close> runs them in order and stops at the first exception.
\<close>

type_synonym step = "FullParamConfig \<Rightarrow> napi_error + FullParamConfig"

fun run_steps :: "step list \<Rightarrow> step" where
  "run_steps [] cfg = Inr cfg"
| "run_steps (s # ss) cfg = (case s cfg of Inl e \<Rightarrow> Inl e | Inr cfg' \<Rightarrow> run_steps ss cfg')"

text \<open>The statement \<open>if (options.Has(key)) cfg.params.f = options.Get(key).As<T>()...\<close>,
  with the accessor of \<open>T\<close> as \<open>conv\<close> and the assignment to the field as \<open>upd\<close>.\<close>

definition set_field ::
  "(js_value \<Rightarrow> napi_error + 'a) \<Rightarrow> napi_object \<Rightarrow> string \<Rightarrow>
   ('a \<Rightarrow> whisper_full_params \<Rightarrow> whisper_full_params) \<Rightarrow> step" where
  "set_field conv options key upd cfg =
     (if Has options key
      then (case conv (Get options key) of
              Inl e \<Rightarrow> Inl e
            | Inr v \<Rightarrow> Inr (cfg\<lparr>params := upd v (params cfg)\<rparr>))
      else Inr cfg)"

text \<open>\<open>::tolower\<close> in the C locale.\<close>

definition tolower :: "char \<Rightarrow> char" where
  "tolower c = (let n = (of_char c :: nat) in if 65 \<le> n \<and> n \<le> 90 then char_of (n + 32) else c)"

definition param_steps :: "napi_object \<Rightarrow> step list" where
  "param_steps options =
    [set_field Int32Value options ''strategy'' (\<lambda>v p. p\<lparr>strategy := v\<rparr>),
     set_field Int32Value options ''n_threads'' (\<lambda>v p. p\<lparr>n_threads := v\<rparr>),
     set_field Int32Value options ''n_max_text_ctx'' (\<lambda>v p. p\<lparr>n_max_text_ctx := v\<rparr>),
     set_field Int32Value options ''offset_ms'' (\<lambda>v p. p\<lparr>offset_ms := v\<rparr>),
     set_field Int32Value options ''duration_ms'' (\<lambda>v p. p\<lparr>duration_ms := v\<rparr>),
     set_field BooleanValue options ''translate'' (\<lambda>v p. p\<lparr>translate := v\<rparr>),
     set_field BooleanValue options ''no_context'' (\<lambda>v p. p\<lparr>no_context := v\<rparr>),
     set_field BooleanValue options ''no_timestamps'' (\<lambda>v p. p\<lparr>no_timestamps := v\<rparr>),
     set_field BooleanValue options ''single_segment'' (\<lambda>v p. p\<lparr>single_segment := v\<rparr>),
     set_field BooleanValue options ''print_special'' (\<lambda>v p. p\<lparr>print_special := v\<rparr>),
     (\<lambda>cfg. if Has options ''print_progress''
            then set_field BooleanValue options ''print_progress'' (\<lambda>v p. p\<lparr>print_progress := v\<rparr>) cfg
            else Inr (cfg\<lparr>params := (params cfg)\<lparr>print_progress := False\<rparr>\<rparr>)),
     set_field BooleanValue options ''print_realtime'' (\<lambda>v p. p\<lparr>print_realtime := v\<rparr>),
     set_field BooleanValue options ''print_timestamps'' (\<lambda>v p. p\<lparr>print_timestamps := v\<rparr>),
     set_field BooleanValue options ''token_timestamps'' (\<lambda>v p. p\<lparr>token_timestamps := v\<rparr>),
     (\<lambda>cfg. Inr (cfg\<lparr>cfg_token_timestamps := token_timestamps (params cfg)\<rparr>)),
     set_field FloatValue options ''thold_pt'' (\<lambda>v p. p\<lparr>thold_pt := v\<rparr>),
     set_field FloatValue options ''thold_ptsum'' (\<lambda>v p. p\<lparr>thold_ptsum := v\<rparr>),
     set_field Int32Value options ''max_len'' (\<lambda>v p. p\<lparr>max_len := v\<rparr>),
     set_field BooleanValue options ''split_on_word'' (\<lambda>v p. p\<lparr>split_on_word := v\<rparr>),
     set_field Int32Value options ''max_tokens'' (\<lambda>v p. p\<lparr>max_tokens := v\<rparr>),
     set_field BooleanValue options ''debug_mode'' (\<lambda>v p. p\<lparr>debug_mode := v\<rparr>),
     set_field Int32Value options ''audio_ctx'' (\<lambda>v p. p\<lparr>audio_ctx := v\<rparr>),
     set_field BooleanValue options ''tdrz_enable'' (\<lambda>v p. p\<lparr>tdrz_enable := v\<rparr>),
     (\<lambda>cfg. Inr (if Has options ''initial_prompt'' \<and> IsString (Get options ''initial_prompt'')
                 then cfg\<lparr>cfg_initial_prompt := AsString (Get options ''initial_prompt'')\<rparr>
                 else cfg)),
     (\<lambda>cfg. Inr (if Has options ''language'' \<and> IsString (Get options ''language'')
                 then cfg\<lparr>cfg_language := AsString (Get options ''language'')\<rparr>
                 else cfg\<lparr>cfg_language := ''auto''\<rparr>)),
     set_field BooleanValue options ''suppress_blank'' (\<lambda>v p. p\<lparr>suppress_blank := v\<rparr>),
     set_field BooleanValue options ''suppress_non_speech_tokens'' (\<lambda>v p. p\<lparr>suppress_nst := v\<rparr>),
     set_field FloatValue options ''temperature'' (\<lambda>v p. p\<lparr>temperature := v\<rparr>),
     set_field Int32Value options ''max_initial_ts'' (\<lambda>v p. p\<lparr>max_initial_ts := v\<rparr>),
     set_field FloatValue options ''length_penalty'' (\<lambda>v p. p\<lparr>length_penalty := v\<rparr>),
     set_field FloatValue options ''temperature_inc'' (\<lambda>v p. p\<lparr>temperature_inc := v\<rparr>),
     set_field FloatValue options ''entropy_thold'' (\<lambda>v p. p\<lparr>entropy_thold := v\<rparr>),
     set_field FloatValue options ''logprob_thold'' (\<lambda>v p. p\<lparr>logprob_thold := v\<rparr>),
     set_field FloatValue options ''no_speech_thold'' (\<lambda>v p. p\<lparr>no_speech_thold := v\<rparr>),
     set_field Int32Value options ''best_of'' (\<lambda>v p. p\<lparr>greedy_best_of := v\<rparr>),
     set_field Int32Value options ''beam_size''
       (\<lambda>v p. if v > 1
              then p\<lparr>beam_search_beam_size := v, strategy := WHISPER_SAMPLING_BEAM_SEARCH\<rparr>
              else p\<lparr>beam_search_beam_size := v\<rparr>),
     (\<lambda>cfg. Inr (if Has options ''prompt'' \<and> IsString (Get options ''prompt'')
                    \<and> cfg_initial_prompt cfg = []
                 then cfg\<lparr>cfg_initial_prompt := AsString (Get options ''prompt'')\<rparr>
                 else cfg)),
     (\<lambda>cfg. Inr (if Has options ''format'' \<and> IsString (Get options ''format'')
                 then cfg\<lparr>detailed := (map tolower (AsString (Get options ''format'')) = ''detail'')\<rparr>
                 else cfg)),
     set_field BooleanValue options ''detect_language'' (\<lambda>v p. p\<lparr>detect_language := v\<rparr>),
     (\<lambda>cfg. Inr (if cfg_language cfg = [] then cfg\<lparr>cfg_language := ''auto''\<rparr> else cfg))]"

text \<open>\<open>default_params\<close> stands for the engine's \<open>whisper_full_default_params\<close>. The other
  members of \<open>FullParamConfig\<close> start from their default member initializers.\<close>

definition parse_full_params ::
  "(int \<Rightarrow> whisper_full_params) \<Rightarrow> napi_object \<Rightarrow> napi_error + FullParamConfig" where
  "parse_full_params default_params options =
     run_steps (param_steps options)
       \<lparr>params = default_params WHISPER_SAMPLING_GREEDY,
        cfg_initial_prompt = [],
        cfg_language = [],
        detailed = False,
        cfg_token_timestamps = False\<rparr>"

section \<open>Single-precision arithmetic\<close>

text \<open>
  The C++ type \<open>float\<close> is IEEE 754 binary32: a finite value, which is a rational number,
  an infinity or NaN. Every operation gives the exact result rounded to the nearest
  binary32 value, ties to the even significand; a result of magnitude \<open>2^128\<close> or more
  is an infinity. The sign of zero is not modelled.

  \<open>ilog2 x\<close> is the exponent \<open>e\<close> with \<open>2^e \<le> |x| < 2^(e+1)\<close>, found from the bit lengths
  of the numerator and the denominator. The binary32 values of that exponent are the
  multiples of \<open>2^(e-23)\<close>, and those below \<open>2^-126\<close> the multiples of \<open>2^-149\<close>.
\<close>

datatype float32 = F32 rat | F32_PosInf | F32_NegInf | F32_NaN

definition pow2 :: "int \<Rightarrow> rat" where
  "pow2 k = (if 0 \<le> k then 2 ^ nat k else 1 / 2 ^ nat (- k))"

definition ilog2 :: "rat \<Rightarrow> int" where
  "ilog2 x =
     (case quotient_of \<bar>x\<bar> of
        (a, b) \<Rightarrow> (let d = bitlen a - bitlen b in if pow2 d \<le> \<bar>x\<bar> then d else d - 1))"

definition round_to_even :: "rat \<Rightarrow> int" where
  "round_to_even y =
     (let n = \<lfloor>y\<rfloor>; r = y - of_int n
      in if r < 1 / 2 then n else if 1 / 2 < r then n + 1 else if even n then n else n + 1)"

definition f32_round :: "rat \<Rightarrow> float32" where
  "f32_round x =
     (if x = 0 then F32 0
      else (let ulp = pow2 (max (ilog2 x) (- 126) - 23);
                y = of_int (round_to_even (x / ulp)) * ulp
            in if pow2 128 \<le> \<bar>y\<bar> then (if 0 < x then F32_PosInf else F32_NegInf) else F32 y))"

fun f32_neg :: "float32 \<Rightarrow> float32" where
  "f32_neg (F32 x) = F32 (- x)"
| "f32_neg F32_PosInf = F32_NegInf"
| "f32_neg F32_NegInf = F32_PosInf"
| "f32_neg F32_NaN = F32_NaN"

fun f32_add :: "float32 \<Rightarrow> float32 \<Rightarrow> float32" where
  "f32_add (F32 x) (F32 y) = f32_round (x + y)"
| "f32_add F32_NaN b = F32_NaN"
| "f32_add a F32_NaN = F32_NaN"
| "f32_add F32_PosInf F32_NegInf = F32_NaN"
| "f32_add F32_NegInf F32_PosInf = F32_NaN"
| "f32_add F32_PosInf b = F32_PosInf"
| "f32_add F32_NegInf b = F32_NegInf"
| "f32_add (F32 x) b = b"

definition f32_sub :: "float32 \<Rightarrow> float32 \<Rightarrow> float32" where
  "f32_sub a b = f32_add a (f32_neg b)"

fun f32_div :: "float32 \<Rightarrow> float32 \<Rightarrow> float32" where
  "f32_div (F32 x) (F32 y) =
     (if y = 0 then (if x = 0 then F32_NaN else if 0 < x then F32_PosInf else F32_NegInf)
      else f32_round (x / y))"
| "f32_div F32_NaN b = F32_NaN"
| "f32_div a F32_NaN = F32_NaN"
| "f32_div (F32 x) b = F32 0"
| "f32_div a (F32 y) = (if y < 0 then f32_neg a else a)"
| "f32_div a b = F32_NaN"

text \<open>The comparison \<open><\<close>, false whenever an operand is NaN.\<close>

fun f32_less :: "float32 \<Rightarrow> float32 \<Rightarrow> bool" where
  "f32_less (F32 x) (F32 y) = (x < y)"
| "f32_less F32_NaN b = False"
| "f32_less a F32_NaN = False"
| "f32_less a F32_NegInf = False"
| "f32_less F32_PosInf b = False"
| "f32_less a b = True"

text \<open>\<open>std::min(a, b)\<close> is \<open>(b < a) ? b : a\<close> and \<open>std::max(a, b)\<close> is \<open>(a < b) ? b : a\<close>.\<close>

definition std_min :: "float32 \<Rightarrow> float32 \<Rightarrow> float32" where
  "std_min a b = (if f32_less b a then b else a)"

definition std_max :: "float32 \<Rightarrow> float32 \<Rightarrow> float32" where
  "std_max a b = (if f32_less a b then b else a)"

text \<open>\<open>static_cast<float>\<close> of an \<open>int\<close>.\<close>

definition f32_of_int :: "int \<Rightarrow> float32" where
  "f32_of_int n = f32_round (of_int n)"

text \<open>The conversion to \<open>double\<close> on the way to a JavaScript number, which is exact.\<close>

fun js_of_float32 :: "float32 \<Rightarrow> js_number" where
  "js_of_float32 (F32 x) = Finite (of_rat x)"
| "js_of_float32 F32_PosInf = PosInfinity"
| "js_of_float32 F32_NegInf = NegInfinity"
| "js_of_float32 F32_NaN = NaN"

section \<open>The result builder\<close>

text \<open>
  What the engine's accessors return after a decode: per segment the two tick values, the
  text and the tokens; per token its text, id, probability and tick values; the detected
  language and the end-of-text token id. Tick values are the engine's integers;
  probabilities are \<open>float\<close> values.
\<close>

record engine_token =
  token_text :: string
  token_id :: int
  token_p :: float32
  token_t0 :: int
  token_t1 :: int

record engine_segment =
  segment_t0 :: int
  segment_t1 :: int
  segment_text :: string
  segment_tokens :: "engine_token list"

record whisper_state =
  full_segments :: "engine_segment list"
  full_lang :: string
  token_eot :: int

record TokenData =
  tk_text :: string
  tk_id :: int
  tk_p :: float32
  tk_from_ms :: int
  tk_to_ms :: int

record SegmentData =
  sg_from_ms :: int
  sg_to_ms :: int
  sg_text :: string
  sg_confidence :: float32
  sg_language :: string
  sg_tokens :: "TokenData list"

definition make_token :: "bool \<Rightarrow> engine_token \<Rightarrow> TokenData" where
  "make_token timestamps token =
     \<lparr>tk_text = token_text token,
      tk_id = token_id token,
      tk_p = token_p token,
      tk_from_ms = (if timestamps then to_int32 (token_t0 token * 10) else - 1),
      tk_to_ms = (if timestamps then to_int32 (token_t1 token * 10) else - 1)\<rparr>"

text \<open>The loop over the tokens of one segment. The state is the token vector and the
  four accumulators \<open>confidence_sum\<close>, \<open>min_p\<close>, \<open>max_p\<close> and \<open>valid_tokens\<close>.\<close>

fun token_loop ::
  "bool \<Rightarrow> int \<Rightarrow> engine_token list \<Rightarrow>
   TokenData list \<times> float32 \<times> float32 \<times> float32 \<times> int \<Rightarrow>
   TokenData list \<times> float32 \<times> float32 \<times> float32 \<times> int" where
  "token_loop timestamps eot [] st = st"
| "token_loop timestamps eot (token # rest) (tokens, confidence_sum, min_p, max_p, valid_tokens) =
     (if token_id token > eot
      then token_loop timestamps eot rest
             (tokens @ [make_token timestamps token], confidence_sum, min_p, max_p, valid_tokens)
      else token_loop timestamps eot rest
             (tokens @ [make_token timestamps token],
              f32_add confidence_sum (token_p token),
              std_min min_p (token_p token),
              std_max max_p (token_p token),
              valid_tokens + 1))"

definition segment_confidence :: "float32 \<times> float32 \<times> float32 \<times> int \<Rightarrow> float32" where
  "segment_confidence acc =
     (case acc of (confidence_sum, min_p, max_p, valid_tokens) \<Rightarrow>
        if valid_tokens > 2
        then f32_div (f32_sub (f32_sub confidence_sum min_p) max_p) (f32_of_int (valid_tokens - 2))
        else if valid_tokens > 0 then f32_div confidence_sum (f32_of_int valid_tokens)
        else F32 0)"

definition segment_data :: "FullParamConfig \<Rightarrow> whisper_state \<Rightarrow> engine_segment \<Rightarrow> SegmentData" where
  "segment_data cfg st seg =
     (let segment =
            \<lparr>sg_from_ms = to_int32 (segment_t0 seg * 10),
             sg_to_ms = to_int32 (segment_t1 seg * 10),
             sg_text = segment_text seg,
             sg_confidence = F32 0,
             sg_language = [],
             sg_tokens = []\<rparr>
      in if detailed cfg
         then (case token_loop (cfg_token_timestamps cfg) (token_eot st) (segment_tokens seg)
                      ([], F32 0, F32 1, F32 0, 0) of
                 (tokens, acc) \<Rightarrow>
                   segment\<lparr>sg_tokens := tokens,
                           sg_confidence := segment_confidence acc,
                           sg_language := full_lang st\<rparr>)
         else segment)"

definition js_int :: "int \<Rightarrow> js_value" where
  "js_int n = JNumber (Finite (of_int n))"

definition js_token :: "FullParamConfig \<Rightarrow> TokenData \<Rightarrow> js_value" where
  "js_token cfg token =
     JObject ([(''text'', JString (tk_text token)),
               (''id'', js_int (tk_id token)),
               (''p'', JNumber (js_of_float32 (tk_p token)))]
              @ (if cfg_token_timestamps cfg
                 then [(''from'', js_int (tk_from_ms token)), (''to'', js_int (tk_to_ms token))]
                 else []))"

definition js_segment :: "FullParamConfig \<Rightarrow> SegmentData \<Rightarrow> js_value" where
  "js_segment cfg segment =
     JObject ([(''from'', js_int (sg_from_ms segment)),
               (''to'', js_int (sg_to_ms segment)),
               (''text'', JString (sg_text segment))]
              @ (if detailed cfg
                 then [(''lang'', JString (sg_language segment)),
                       (''confidence'', JNumber (js_of_float32 (sg_confidence segment))),
                       (''tokens'', JArray (map (js_token cfg) (sg_tokens segment)))]
                 else []))"

definition build_segments :: "FullParamConfig \<Rightarrow> whisper_state \<Rightarrow> js_value" where
  "build_segments cfg st =
     JArray (map (\<lambda>seg. js_segment cfg (segment_data cfg st seg)) (full_segments st))"

section \<open>Handles and the entry points\<close>

text \<open>
  A \<open>WhisperHandle\<close> holds the context pointer (\<open>None\<close> for the null pointer) and the
  \<open>freed\<close> flag. The model is sequential: each entry point runs to its end before the
  next starts, so the mutex of the handle is always acquired free, and its state is not
  kept. What is kept is where the mutex lives: inside the handle. The \<open>std::lock_guard\<close>
  of an entry point unlocks it when the guard leaves scope. In \<open>free_model\<close> and
  \<open>full_transcribe\<close> the handle is alive at that point and the unlock changes nothing;
  in the finalizer of \<open>wrap_handle\<close> the guard leaves scope after \<open>delete ptr\<close>.

  The world is the native heap of handles (\<open>new\<close> takes the next address, \<open>delete\<close>
  removes the handle) and the trace of the calls made to the engine and to the audio
  reader.
\<close>

type_synonym whisper_context = nat

record WhisperHandle =
  ctx :: "whisper_context option"
  freed :: bool

datatype engine_call =
    InitFromFile string bool bool
  | WhisperFree whisper_context
  | ReadAudioData string
  | FullParallel whisper_context whisper_full_params "js_number list" int int

record world =
  handles :: "(nat \<times> WhisperHandle) list"
  next_handle :: nat
  calls :: "engine_call list"

text \<open>
  The external collaborators. What they return may depend on everything that happened
  before, so each takes the trace so far: the model loader returns a context or the null
  pointer, the audio reader the samples or failure, the decoder its status code and the
  state that the accessors of the result builder then read.
\<close>

record engine =
  whisper_full_default_params :: "int \<Rightarrow> whisper_full_params"
  whisper_init_from_file_with_params ::
    "engine_call list \<Rightarrow> string \<Rightarrow> bool \<Rightarrow> bool \<Rightarrow> whisper_context option"
  read_audio_data :: "engine_call list \<Rightarrow> string \<Rightarrow> js_number list option"
  whisper_full_parallel ::
    "engine_call list \<Rightarrow> whisper_context \<Rightarrow> whisper_full_params \<Rightarrow> js_number list \<Rightarrow> int \<Rightarrow> int
     \<Rightarrow> int \<times> whisper_state"

text \<open>The two places of undefined behaviour in this model. \<open>DanglingHandle\<close>: an entry
  point handed an \<open>External\<close> whose handle was deleted; the host cannot do that, since the
  finalizer runs only when no \<open>External\<close> refers to the handle. \<open>UnlockAfterDelete\<close>: a
  lock guard unlocks the mutex of a handle that was deleted, that is a destroyed mutex in
  freed memory.\<close>

datatype failure = Throw napi_error | DanglingHandle | UnlockAfterDelete

type_synonym 'a outcome = "(failure + 'a) \<times> world"

text \<open>The guarded release, which \<open>free_model\<close> and the finalizer of \<open>wrap_handle\<close> both
  contain: \<open>if (!freed && ctx) { whisper_free(ctx); ctx = nullptr; freed = true; }\<close>.\<close>

definition release :: "world \<Rightarrow> nat \<Rightarrow> WhisperHandle \<Rightarrow> world" where
  "release w a h =
     (case ctx h of
        None \<Rightarrow> w
      | Some c \<Rightarrow>
          if freed h then w
          else w\<lparr>calls := calls w @ [WhisperFree c],
                 handles := AList.update a (h\<lparr>ctx := None, freed := True\<rparr>) (handles w)\<rparr>)"

text \<open>The destructor of a lock guard on the mutex of the handle at an address.\<close>

definition unlock_guard :: "world \<Rightarrow> nat \<Rightarrow> failure option" where
  "unlock_guard w a =
     (case map_of (handles w) a of None \<Rightarrow> Some UnlockAfterDelete | Some h \<Rightarrow> None)"

text \<open>The finalizer that \<open>wrap_handle\<close> registers, run by the host with the handle's
  address when the \<open>External\<close> is reclaimed: it takes the guard, releases the context,
  deletes the handle, and only then does the guard leave scope.\<close>

definition wrap_handle_finalizer :: "world \<Rightarrow> nat option \<Rightarrow> unit outcome" where
  "wrap_handle_finalizer w ptr =
     (case ptr of
        None \<Rightarrow> (Inr (), w)
      | Some a \<Rightarrow>
          (case map_of (handles w) a of
             None \<Rightarrow> (Inl DanglingHandle, w)
           | Some h \<Rightarrow>
               (let w' = release w a h;
                    w'' = w'\<lparr>handles := AList.delete a (handles w')\<rparr>
                in case unlock_guard w'' a of
                     Some f \<Rightarrow> (Inl f, w'')
                   | None \<Rightarrow> (Inr (), w''))))"

definition unwrap_handle :: "js_value list \<Rightarrow> nat \<Rightarrow> napi_error + nat" where
  "unwrap_handle info index =
     (if length info \<le> index \<or> \<not> IsExternal (info ! index)
      then Inl (TypeError ''Invalid context handle'')
      else (case info ! index of JExternal a \<Rightarrow> Inr a | _ \<Rightarrow> Inl (TypeError ''Invalid context handle'')))"

definition extract_audio :: "napi_object \<Rightarrow> js_number list" where
  "extract_audio options =
     (if Has options ''audio'' \<and> IsTypedArray (Get options ''audio'')
      then (case Get options ''audio'' of JFloat32Array xs \<Rightarrow> xs | _ \<Rightarrow> [])
      else [])"

definition extract_files :: "napi_object \<Rightarrow> string list" where
  "extract_files options =
     (if Has options ''fname_inp''
      then (let v = Get options ''fname_inp'' in if IsString v then [AsString v] else [])
      else [])"

text \<open>The two flags of \<open>init_model\<close>: \<open>gpu\<close> is looked at before \<open>use_gpu\<close>, and the
  default of \<open>use_gpu\<close> is true; the default of \<open>flash_attn\<close> is false.\<close>

definition use_gpu_of :: "napi_object \<Rightarrow> napi_error + bool" where
  "use_gpu_of options =
     (if Has options ''gpu'' then BooleanValue (Get options ''gpu'')
      else if Has options ''use_gpu'' then BooleanValue (Get options ''use_gpu'')
      else Inr True)"

definition flash_attn_of :: "napi_object \<Rightarrow> napi_error + bool" where
  "flash_attn_of options =
     (if Has options ''flash_attn'' then BooleanValue (Get options ''flash_attn'')
      else Inr False)"

definition init_model :: "engine \<Rightarrow> world \<Rightarrow> js_value list \<Rightarrow> js_value outcome" where
  "init_model eng w info =
     (if length info < 1 \<or> \<not> IsObject (info ! 0)
      then (Inl (Throw (TypeError ''Expected init options object'')), w)
      else
       (let options = AsObject (info ! 0) in
        if \<not> Has options ''model'' \<or> \<not> IsString (Get options ''model'')
        then (Inl (Throw (TypeError ''Missing 'model' path'')), w)
        else
         (let model = AsString (Get options ''model'') in
          case use_gpu_of options of
            Inl e \<Rightarrow> (Inl (Throw e), w)
          | Inr use_gpu \<Rightarrow>
             (case flash_attn_of options of
                Inl e \<Rightarrow> (Inl (Throw e), w)
              | Inr flash_attn \<Rightarrow>
                 (let w' = w\<lparr>calls := calls w @ [InitFromFile model use_gpu flash_attn]\<rparr> in
                  case whisper_init_from_file_with_params eng (calls w) model use_gpu flash_attn of
                    None \<Rightarrow> (Inl (Throw (Error ''Failed to initialize whisper context'')), w')
                  | Some c \<Rightarrow>
                      (Inr (JExternal (next_handle w')),
                       w'\<lparr>handles := AList.update (next_handle w') \<lparr>ctx = Some c, freed = False\<rparr>
                                       (handles w'),
                          next_handle := next_handle w' + 1\<rparr>))))))"

definition free_model :: "world \<Rightarrow> js_value list \<Rightarrow> js_value outcome" where
  "free_model w info =
     (case unwrap_handle info 0 of
        Inl e \<Rightarrow> (Inl (Throw e), w)
      | Inr a \<Rightarrow>
          (case map_of (handles w) a of
             None \<Rightarrow> (Inl DanglingHandle, w)
           | Some h \<Rightarrow> (Inr JUndefined, release w a h)))"

text \<open>The audio of a call: the buffer when it is not empty, else the file named by
  \<open>fname_inp\<close>, read through the audio reader.\<close>

definition load_audio :: "engine \<Rightarrow> world \<Rightarrow> napi_object \<Rightarrow> (napi_error + js_number list) \<times> world" where
  "load_audio eng w options =
     (let pcmf32 = extract_audio options; files = extract_files options in
      if pcmf32 = []
      then (case files of
              [] \<Rightarrow> (Inl (Error ''No audio provided (audio buffer or fname_inp required)''), w)
            | file # _ \<Rightarrow>
                (let w' = w\<lparr>calls := calls w @ [ReadAudioData file]\<rparr> in
                 case read_audio_data eng (calls w) file of
                   None \<Rightarrow> (Inl (Error ''Failed to read input audio file''), w')
                 | Some samples \<Rightarrow> (Inr samples, w')))
      else (Inr pcmf32, w))"

text \<open>\<open>c_str()\<close> of a \<open>std::string\<close>, as the engine reads it: the characters before the
  first NUL.\<close>

definition c_str :: "string \<Rightarrow> string" where
  "c_str s = takeWhile (\<lambda>c. c \<noteq> CHR 0x00) s"

text \<open>\<open>parse_full_params\<close> followed by the statements of \<open>full_transcribe\<close> that complete
  the parameter record: the second check of the language and the two pointers.\<close>

definition engine_params :: "engine \<Rightarrow> napi_object \<Rightarrow> napi_error + FullParamConfig" where
  "engine_params eng options =
     (case parse_full_params (whisper_full_default_params eng) options of
        Inl e \<Rightarrow> Inl e
      | Inr cfg0 \<Rightarrow>
          (let cfg = (if cfg_language cfg0 = [] then cfg0\<lparr>cfg_language := ''auto''\<rparr> else cfg0)
           in Inr (cfg\<lparr>params := (params cfg)
                        \<lparr>language := Some (c_str (cfg_language cfg)),
                         initial_prompt := (if cfg_initial_prompt cfg = [] then None
                                            else Some (c_str (cfg_initial_prompt cfg)))\<rparr>\<rparr>)))"

definition n_processors_of :: "napi_object \<Rightarrow> napi_error + int" where
  "n_processors_of options =
     (if Has options ''n_processors''
      then (case Int32Value (Get options ''n_processors'') of
              Inl e \<Rightarrow> Inl e
            | Inr n \<Rightarrow> Inr (max 1 n))
      else Inr 1)"

definition full_transcribe :: "engine \<Rightarrow> world \<Rightarrow> js_value list \<Rightarrow> js_value outcome" where
  "full_transcribe eng w info =
     (if length info < 2 \<or> \<not> IsObject (info ! 1)
      then (Inl (Throw (TypeError ''Expected arguments (handle, options)'')), w)
      else
       (case unwrap_handle info 0 of
          Inl e \<Rightarrow> (Inl (Throw e), w)
        | Inr a \<Rightarrow>
           (case map_of (handles w) a of
              None \<Rightarrow> (Inl DanglingHandle, w)
            | Some h \<Rightarrow>
               (case ctx h of
                  None \<Rightarrow> (Inl (Throw (Error ''Model has been freed'')), w)
                | Some c \<Rightarrow>
                   if freed h then (Inl (Throw (Error ''Model has been freed'')), w)
                   else
                    (let options = AsObject (info ! 1);
                         audio = load_audio eng w options;
                         w1 = snd audio
                     in case fst audio of
                          Inl e \<Rightarrow> (Inl (Throw e), w1)
                        | Inr pcmf32 \<Rightarrow>
                           (case engine_params eng options of
                              Inl e \<Rightarrow> (Inl (Throw e), w1)
                            | Inr cfg \<Rightarrow>
                               (case n_processors_of options of
                                  Inl e \<Rightarrow> (Inl (Throw e), w1)
                                | Inr n_processors \<Rightarrow>
                                   (let n_samples = to_int32 (int (length pcmf32));
                                        w2 = w1\<lparr>calls := calls w1 @
                                               [FullParallel c (params cfg) pcmf32 n_samples n_processors]\<rparr>;
                                        decoded = whisper_full_parallel eng (calls w1) c (params cfg)
                                                    pcmf32 n_samples n_processors
                                    in if fst decoded \<noteq> 0
                                       then (Inl (Throw (Error ''whisper_full_parallel failed'')), w2)
                                       else (Inr (build_segments cfg (snd decoded)), w2)))))))))"

section \<open>Notions of the specification\<close>

text \<open>The probabilities of the tokens of a segment that count for its confidence, those
  whose id is not greater than the end-of-text id, and the mean the specification
  prescribes for them, in the arithmetic of \<open>float\<close>: the sum is taken from 0 in the
  order of the tokens, the minimum and the maximum are the least and the greatest of the
  values, and the count is converted to \<open>float\<close>.\<close>

definition qualifying :: "int \<Rightarrow> engine_token list \<Rightarrow> float32 list" where
  "qualifying eot toks = map token_p (filter (\<lambda>t. token_id t \<le> eot) toks)"

definition probability :: "float32 \<Rightarrow> bool" where
  "probability p = (case p of F32 x \<Rightarrow> 0 \<le> x \<and> x \<le> 1 | _ \<Rightarrow> False)"

definition f32_value :: "float32 \<Rightarrow> rat" where
  "f32_value p = (case p of F32 x \<Rightarrow> x | _ \<Rightarrow> 0)"

definition f32_sum :: "float32 list \<Rightarrow> float32" where
  "f32_sum ps = foldl f32_add (F32 0) ps"

definition minimum :: "float32 list \<Rightarrow> float32" where
  "minimum ps = F32 (Min (set (map f32_value ps)))"

definition maximum :: "float32 list \<Rightarrow> float32" where
  "maximum ps = F32 (Max (set (map f32_value ps)))"

definition trimmed_mean :: "float32 list \<Rightarrow> float32" where
  "trimmed_mean ps =
     (if length ps > 2
      then f32_div (f32_sub (f32_sub (f32_sum ps) (minimum ps)) (maximum ps))
             (f32_of_int (int (length ps) - 2))
      else if length ps > 0 then f32_div (f32_sum ps) (f32_of_int (int (length ps)))
      else F32 0)"

definition fits_int32 :: "int \<Rightarrow> bool" where
  "fits_int32 x = (- (2 ^ 31) \<le> x \<and> x < 2 ^ 31)"

text \<open>The language of a call as the specification defines it: the \<open>language\<close> option
  when it is a string and not empty, else \<open>auto\<close>.\<close>

definition spec_language :: "napi_object \<Rightarrow> string" where
  "spec_language options =
     (case map_of options ''language'' of
        Some (JString l) \<Rightarrow> if l = [] then ''auto'' else l
      | _ \<Rightarrow> ''auto'')"

section \<open>Notions for the proofs\<close>

text \<open>A statement of the parser preserves a property of the configuration when it holds
  after the statement whenever it held before and the statement did not throw.\<close>

definition preserves :: "(FullParamConfig \<Rightarrow> bool) \<Rightarrow> step \<Rightarrow> bool" where
  "preserves P s = (\<forall>a b. P a \<longrightarrow> s a = Inr b \<longrightarrow> P b)"

text \<open>The configuration \<open>parse_full_params\<close> starts from.\<close>

definition initial_cfg :: "(int \<Rightarrow> whisper_full_params) \<Rightarrow> FullParamConfig" where
  "initial_cfg d = \<lparr>params = d WHISPER_SAMPLING_GREEDY, cfg_initial_prompt = [], cfg_language = [],
        detailed = False, cfg_token_timestamps = False\<rparr>"

text \<open>The value of an option when it is present and a string.\<close>

definition supplied_string :: "napi_object \<Rightarrow> string \<Rightarrow> string option" where
  "supplied_string options key =
     (case map_of options key of Some (JString s) \<Rightarrow> Some s | _ \<Rightarrow> None)"

text \<open>The calls that an entry point added to the trace.\<close>

definition new_calls :: "world \<Rightarrow> world \<Rightarrow> engine_call list" where
  "new_calls w w' = drop (length (calls w)) (calls w')"

text \<open>The language and the samples of a decode call.\<close>

definition decode_language :: "engine_call \<Rightarrow> string option option" where
  "decode_language e = (case e of FullParallel c p samples n k \<Rightarrow> Some (language p) | _ \<Rightarrow> None)"

definition decode_samples :: "engine_call \<Rightarrow> js_number list option" where
  "decode_samples e = (case e of FullParallel c p samples n k \<Rightarrow> Some samples | _ \<Rightarrow> None)"

section \<open>The invariant of handles\<close>

text \<open>A handle whose \<open>freed\<close> flag is set holds the null pointer; a world is in order when
  all its handles are.\<close>

definition handle_ok :: "nat \<times> WhisperHandle \<Rightarrow> bool" where
  "handle_ok ah = (freed (snd ah) \<longrightarrow> ctx (snd ah) = None)"

definition world_ok :: "world \<Rightarrow> bool" where
  "world_ok w = list_all handle_ok (handles w)"

section \<open>Example inputs\<close>

definition example_params :: whisper_full_params where
  "example_params =
     \<lparr>strategy = 0, n_threads = 4, n_max_text_ctx = 16384, offset_ms = 0, duration_ms = 0,
      translate = False, no_context = True, no_timestamps = False, single_segment = False,
      print_special = False, print_progress = True, print_realtime = False,
      print_timestamps = True, token_timestamps = False, thold_pt = Finite 0.01,
      thold_ptsum = Finite 0.01, max_len = 0, split_on_word = False, max_tokens = 0,
      debug_mode = False, audio_ctx = 0, tdrz_enable = False, suppress_blank = True,
      suppress_nst = False, temperature = Finite 0, max_initial_ts = 1,
      length_penalty = Finite (- 1), temperature_inc = Finite 0.2, entropy_thold = Finite 2.4,
      logprob_thold = Finite (- 1), no_speech_thold = Finite 0.6, greedy_best_of = - 1,
      beam_search_beam_size = - 1, detect_language = False, language = None,
      initial_prompt = None\<rparr>"

definition example_cfg :: "bool \<Rightarrow> bool \<Rightarrow> FullParamConfig" where
  "example_cfg d ts =
     \<lparr>params = example_params, cfg_initial_prompt = [], cfg_language = ''auto'',
      detailed = d, cfg_token_timestamps = ts\<rparr>"

text \<open>A token whose probability is the \<open>float\<close> nearest to the given number.\<close>

definition example_token :: "int \<Rightarrow> rat \<Rightarrow> engine_token" where
  "example_token i p =
     \<lparr>token_text = ''a'', token_id = i, token_p = f32_round p, token_t0 = 150, token_t1 = 170\<rparr>"

definition example_segment :: "engine_token list \<Rightarrow> engine_segment" where
  "example_segment toks =
     \<lparr>segment_t0 = 150, segment_t1 = 320, segment_text = ''hello'', segment_tokens = toks\<rparr>"

definition example_state :: "engine_segment list \<Rightarrow> whisper_state" where
  "example_state segs = \<lparr>full_segments = segs, full_lang = ''en'', token_eot = 50256\<rparr>"

definition example_default_params :: "int \<Rightarrow> whisper_full_params" where
  "example_default_params s = example_params\<lparr>strategy := s\<rparr>"

text \<open>An engine whose model loader accepts every non-empty path, whose audio reader returns
  the given result for every file, and whose decoder succeeds with one segment.\<close>

definition example_engine :: "js_number list option \<Rightarrow> engine" where
  "example_engine audio =
     \<lparr>whisper_full_default_params = example_default_params,
      whisper_init_from_file_with_params =
        (\<lambda>trace model use_gpu flash_attn. if model = [] then None else Some (length trace)),
      read_audio_data = (\<lambda>trace file. audio),
      whisper_full_parallel =
        (\<lambda>trace c p samples n_samples n_processors.
           (0, example_state [example_segment [example_token 1 0.9]]))\<rparr>"

text \<open>A world with one handle at address 0, live or freed.\<close>

definition example_world :: "bool \<Rightarrow> world" where
  "example_world f =
     \<lparr>handles = [(0, \<lparr>ctx = (if f then None else Some 7), freed = f\<rparr>)],
      next_handle = 1,
      calls = [InitFromFile ''model.bin'' True False]\<rparr>"

lemmas ex_defs = example_cfg_def example_token_def example_segment_def example_state_def

section \<open>Single-precision arithmetic: the rounding\<close>

text \<open>\<open>ilog2\<close> is the binary exponent, and the rounding is to a nearest value of the
  format.\<close>

lemma pow2_powi: "pow2 k = 2 powi k"
  by (simp add: pow2_def power_int_def power_inverse [symmetric] inverse_eq_divide power_one_over)

lemma pow2_pos: "0 < pow2 k"
  by (simp add: pow2_def)

lemma round_to_even_near: "\<bar>of_int (round_to_even y) - y\<bar> \<le> 1 / 2"
proof -
  have "of_int \<lfloor>y\<rfloor> \<le> y" "y < of_int \<lfloor>y\<rfloor> + 1" by linarith+
  then show ?thesis by (auto simp: round_to_even_def Let_def abs_le_iff)
qed

lemma ilog2_bounds:
  assumes "x \<noteq> 0"
  shows "pow2 (ilog2 x) \<le> \<bar>x\<bar> \<and> \<bar>x\<bar> < pow2 (ilog2 x + 1)"
proof -
  obtain a b where q: "quotient_of \<bar>x\<bar> = (a, b)" by force
  then have b: "0 < b" by (rule quotient_of_denom_pos)
  from q have x: "\<bar>x\<bar> = of_int a / of_int b" by (rule quotient_of_div)
  have "0 < \<bar>x\<bar>" using assms by simp
  with x b have a: "0 < a" by (simp add: zero_less_divide_iff)
  define la lb where "la = bitlen a" and "lb = bitlen b"
  from bitlen_bounds [OF a] have la: "2 ^ nat (la - 1) \<le> a" "a < 2 ^ nat la" by (simp_all add: la_def)
  from bitlen_bounds [OF b] have lb: "2 ^ nat (lb - 1) \<le> b" "b < 2 ^ nat lb" by (simp_all add: lb_def)
  have la1: "1 \<le> la" using a by (simp add: la_def bitlen_alt_def)
  have lb1: "1 \<le> lb" using b by (simp add: lb_def bitlen_alt_def)
  have pa: "pow2 (la - 1) \<le> of_int a" "of_int a < pow2 la"
  proof -
    have "(of_int (2 ^ nat (la - 1)) :: rat) \<le> of_int a" using la(1) by (simp only: of_int_le_iff)
    then show "pow2 (la - 1) \<le> of_int a" using la1 by (simp add: pow2_def)
    have "(of_int a :: rat) < of_int (2 ^ nat la)" using la(2) by (simp only: of_int_less_iff)
    then show "of_int a < pow2 la" using la1 by (simp add: pow2_def)
  qed
  have pb: "pow2 (lb - 1) \<le> of_int b" "of_int b < pow2 lb"
  proof -
    have "(of_int (2 ^ nat (lb - 1)) :: rat) \<le> of_int b" using lb(1) by (simp only: of_int_le_iff)
    then show "pow2 (lb - 1) \<le> of_int b" using lb1 by (simp add: pow2_def)
    have "(of_int b :: rat) < of_int (2 ^ nat lb)" using lb(2) by (simp only: of_int_less_iff)
    then show "of_int b < pow2 lb" using lb1 by (simp add: pow2_def)
  qed
  define d where "d = la - lb"
  have up: "\<bar>x\<bar> < pow2 (d + 1)"
  proof -
    have "of_int a / of_int b < pow2 la / pow2 (lb - 1)"
      using pa(2) pb(1) a pow2_pos [of "lb - 1"] by (intro frac_less) simp_all
    also have "\<dots> = pow2 (d + 1)"
      by (simp add: pow2_powi d_def power_int_diff [symmetric] algebra_simps)
    finally show ?thesis by (simp add: x)
  qed
  have low: "pow2 (d - 1) \<le> \<bar>x\<bar>"
  proof -
    have "pow2 (la - 1) / pow2 lb \<le> of_int a / of_int b"
      using pa(1) pb(2) b pow2_pos [of "la - 1"] by (intro frac_le) simp_all
    moreover have "pow2 (la - 1) / pow2 lb = pow2 (d - 1)"
      by (simp add: pow2_powi d_def power_int_diff [symmetric] algebra_simps)
    ultimately show ?thesis by (simp add: x)
  qed
  have e: "ilog2 x = (if pow2 d \<le> \<bar>x\<bar> then d else d - 1)"
    by (simp add: ilog2_def q Let_def d_def la_def lb_def)
  show ?thesis using up low by (auto simp: e)
qed


lemma pow2_mono: "j \<le> k \<Longrightarrow> pow2 j \<le> pow2 k"
  by (simp add: pow2_powi power_int_increasing)

text \<open>A finite result of the rounding is a multiple of the unit in the last place, with a
  significand of at most 24 bits, at most half a unit away from the exact value.\<close>

lemma f32_round_nearest:
  assumes "f32_round x = F32 y"
  shows "\<exists>n. y = of_int n * pow2 (max (ilog2 x) (- 126) - 23) \<and> \<bar>n\<bar> \<le> 2 ^ 24
           \<and> \<bar>y - x\<bar> \<le> pow2 (max (ilog2 x) (- 126) - 23) / 2"
proof (cases "x = 0")
  case True
  with assms have "y = 0" by (simp add: f32_round_def)
  with True show ?thesis using pow2_pos [of "max (ilog2 0) (- 126) - 23"]
    by (intro exI [of _ 0]) (simp add: less_imp_le)
next
  case False
  define e' where "e' = max (ilog2 x) (- 126)"
  define ulp where "ulp = pow2 (e' - 23)"
  define n where "n = round_to_even (x / ulp)"
  have ulp: "0 < ulp" by (simp add: ulp_def pow2_pos)
  from assms False have y: "y = of_int n * ulp"
    by (simp add: f32_round_def Let_def n_def ulp_def e'_def split: if_splits)
  have near: "\<bar>of_int n - x / ulp\<bar> \<le> 1 / 2" unfolding n_def by (rule round_to_even_near)
  have "y - x = (of_int n - x / ulp) * ulp" using ulp by (simp add: y algebra_simps)
  then have "\<bar>y - x\<bar> = \<bar>of_int n - x / ulp\<bar> * ulp"
    using ulp by (simp only: abs_mult abs_of_pos)
  also have "\<dots> \<le> (1 / 2) * ulp" using near ulp by (intro mult_right_mono) simp_all
  finally have dist: "\<bar>y - x\<bar> \<le> ulp / 2" by simp
  have "\<bar>x\<bar> < pow2 (ilog2 x + 1)" using ilog2_bounds [OF False] by simp
  also have "\<dots> \<le> pow2 (e' + 1)" by (intro pow2_mono) (simp add: e'_def)
  also have "\<dots> = 2 ^ 24 * ulp"
    by (simp add: ulp_def pow2_powi power_int_diff power_int_add)
  finally have "\<bar>x\<bar> / ulp < 2 ^ 24" using ulp by (simp add: pos_divide_less_eq)
  then have "\<bar>x / ulp\<bar> < 2 ^ 24" using ulp by simp
  with near have "\<bar>(of_int n :: rat)\<bar> < 2 ^ 24 + 1" by linarith
  then have "\<bar>(of_int n :: rat)\<bar> < of_int (2 ^ 24 + 1)" by simp
  then have "\<bar>n\<bar> < 2 ^ 24 + 1" by (simp only: of_int_abs [symmetric] of_int_less_iff)
  then have size: "\<bar>n\<bar> \<le> 2 ^ 24" by simp
  show ?thesis using y dist size unfolding ulp_def e'_def by blast
qed

section \<open>The result builder: confidence and times\<close>

lemma to_int32_id: "fits_int32 x \<Longrightarrow> to_int32 x = x"
  by (simp add: fits_int32_def to_int32_def)

lemma token_loop_eq:
  "token_loop ts eot toks (tokens, s, mn, mx, n) =
     (tokens @ map (make_token ts) toks,
      foldl f32_add s (qualifying eot toks),
      foldl std_min mn (qualifying eot toks),
      foldl std_max mx (qualifying eot toks),
      n + int (length (qualifying eot toks)))"
  by (induction toks arbitrary: tokens s mn mx n) (auto simp: qualifying_def)

text \<open>On probabilities, the running minimum from 1 and the running maximum from 0 are
  the least and the greatest value.\<close>

lemma foldl_std_min:
  "list_all probability ps \<Longrightarrow>
     foldl std_min (F32 m) ps = F32 (fold min (map f32_value ps) m)"
proof (induction ps arbitrary: m)
  case Nil
  then show ?case by simp
next
  case (Cons p ps)
  from Cons.prems have pp: "probability p" and ps: "list_all probability ps" by simp_all
  from pp obtain x where p: "p = F32 x" by (cases p) (auto simp: probability_def)
  have "std_min (F32 m) p = F32 (min x m)"
    by (auto simp: p std_min_def min_def)
  then show ?case using Cons.IH [OF ps] by (simp add: p f32_value_def)
qed

lemma foldl_std_max:
  "list_all probability ps \<Longrightarrow>
     foldl std_max (F32 m) ps = F32 (fold max (map f32_value ps) m)"
proof (induction ps arbitrary: m)
  case Nil
  then show ?case by simp
next
  case (Cons p ps)
  from Cons.prems have pp: "probability p" and ps: "list_all probability ps" by simp_all
  from pp obtain x where p: "p = F32 x" by (cases p) (auto simp: probability_def)
  have "std_max (F32 m) p = F32 (max x m)"
    by (auto simp: p std_max_def max_def)
  then show ?case using Cons.IH [OF ps] by (simp add: p f32_value_def)
qed

lemma fold_min_unit:
  "xs \<noteq> [] \<Longrightarrow> \<forall>x\<in>set xs. x \<le> (m::rat) \<Longrightarrow> fold min xs m = Min (set xs)"
proof -
  assume ne: "xs \<noteq> []" and le: "\<forall>x\<in>set xs. x \<le> m"
  have "fold min xs m = Min (set (m # xs))" by (rule Min.set_eq_fold [symmetric])
  also have "\<dots> = min m (Min (set xs))" using ne by simp
  also have "\<dots> = Min (set xs)"
  proof -
    from ne obtain x where x: "x \<in> set xs" by (cases xs) auto
    then have "Min (set xs) \<le> x" by simp
    also have "x \<le> m" using le x by simp
    finally show ?thesis by (simp add: min_absorb2)
  qed
  finally show ?thesis .
qed

lemma fold_max_unit:
  "xs \<noteq> [] \<Longrightarrow> \<forall>x\<in>set xs. (m::rat) \<le> x \<Longrightarrow> fold max xs m = Max (set xs)"
proof -
  assume ne: "xs \<noteq> []" and le: "\<forall>x\<in>set xs. m \<le> x"
  have "fold max xs m = Max (set (m # xs))" by (rule Max.set_eq_fold [symmetric])
  also have "\<dots> = max m (Max (set xs))" using ne by simp
  also have "\<dots> = Max (set xs)"
  proof -
    from ne obtain x where x: "x \<in> set xs" by (cases xs) auto
    then have "x \<le> Max (set xs)" by simp
    moreover have "m \<le> x" using le x by simp
    ultimately show ?thesis by (simp add: max_absorb2)
  qed
  finally show ?thesis .
qed

lemma probability_value:
  "list_all probability ps \<Longrightarrow> \<forall>x\<in>set (map f32_value ps). 0 \<le> x \<and> x \<le> 1"
  by (auto simp: list_all_iff probability_def f32_value_def split: float32.splits)

text \<open>
  Claim C1. For a segment built with detailed output, the confidence is computed over the
  tokens whose id is not greater than the end-of-text id only: with more than two such
  tokens it is the sum of their probabilities minus the minimum and the maximum, divided by
  the count minus two; with one or two it is their mean; with none it is 0. All of it is
  computed in \<open>float\<close>. The source starts its running minimum at 1 and its running maximum
  at 0, which give the minimum and the maximum of the tokens because probabilities lie
  between 0 and 1.
\<close>

theorem confidence_is_trimmed_mean:
  assumes "detailed cfg"
    and "\<forall>p\<in>set (qualifying (token_eot st) (segment_tokens seg)). probability p"
  shows "sg_confidence (segment_data cfg st seg) =
           trimmed_mean (qualifying (token_eot st) (segment_tokens seg))"
proof -
  let ?ps = "qualifying (token_eot st) (segment_tokens seg)"
  have prob: "list_all probability ?ps" using assms(2) by (simp add: list_all_iff)
  show ?thesis
  proof (cases "?ps = []")
    case True
    then show ?thesis using assms(1)
      by (simp add: segment_data_def token_loop_eq segment_confidence_def trimmed_mean_def)
  next
    case False
    then have ne: "map f32_value ?ps \<noteq> []" by simp
    have mn: "foldl std_min (F32 1) ?ps = minimum ?ps"
      using fold_min_unit [OF ne, of 1] probability_value [OF prob]
      by (simp add: foldl_std_min [OF prob] minimum_def)
    have mx: "foldl std_max (F32 0) ?ps = maximum ?ps"
      using fold_max_unit [OF ne, of 0] probability_value [OF prob]
      by (simp add: foldl_std_max [OF prob] maximum_def)
    have len: "0 < length ?ps" using False by simp
    show ?thesis using assms(1) len
      by (simp add: segment_data_def token_loop_eq segment_confidence_def trimmed_mean_def
          f32_sum_def mn mx)
  qed
qed

text \<open>The examples of the specification, in \<open>float\<close>: the probabilities nearest to 0.9,
  0.9, 0.1 and 0.95 (next to a token beyond the end-of-text id, which does not count) give
  the \<open>float\<close> nearest to 0.9; those nearest to 0.8 and 0.4 give the one nearest to 0.6;
  no qualifying token gives 0. The rounding shows with 0.1, 0.2 and 0.3, which give the
  \<open>float\<close> just below the one nearest to 0.2.\<close>

lemma example_confidences:
  "sg_confidence (segment_data (example_cfg True False) (example_state [])
        (example_segment
            [example_token 50364 0.5, example_token 1 0.9, example_token 2 0.9,
             example_token 3 0.1, example_token 50256 0.95])) = F32 (15099494 / 16777216)"
  "sg_confidence (segment_data (example_cfg True False) (example_state [])
        (example_segment [example_token 1 0.8, example_token 2 0.4])) = F32 (5033165 / 8388608)"
  "sg_confidence (segment_data (example_cfg True False) (example_state [])
        (example_segment [example_token 1 0.1, example_token 2 0.2, example_token 3 0.3]))
     = F32 (3355443 / 16777216)"
  "sg_confidence (segment_data (example_cfg True False) (example_state [])
        (example_segment [example_token 50364 0.5])) = F32 0"
  "f32_round 0.9 = F32 (15099494 / 16777216)"
  "f32_round 0.6 = F32 (5033165 / 8388608)"
  "f32_round 0.2 = F32 (3355443 / 16777216 + 1 / 67108864)"
  by code_simp+

theorem confidence_is_trimmed_mean_witness:
  "detailed (example_cfg True False)
   \<and> list_all probability
        (qualifying (token_eot (example_state []))
           (segment_tokens (example_segment
              [example_token 50364 0.5, example_token 1 0.9, example_token 2 0.9,
               example_token 3 0.1, example_token 50256 0.95])))
   \<and> sg_confidence (segment_data (example_cfg True False) (example_state [])
        (example_segment
            [example_token 50364 0.5, example_token 1 0.9, example_token 2 0.9,
             example_token 3 0.1, example_token 50256 0.95]))
       = trimmed_mean (qualifying (token_eot (example_state []))
           (segment_tokens (example_segment
              [example_token 50364 0.5, example_token 1 0.9, example_token 2 0.9,
               example_token 3 0.1, example_token 50256 0.95])))
   \<and> sg_confidence (segment_data (example_cfg True False) (example_state [])
        (example_segment
            [example_token 50364 0.5, example_token 1 0.9, example_token 2 0.9,
             example_token 3 0.1, example_token 50256 0.95])) = f32_round 0.9
   \<and> sg_confidence (segment_data (example_cfg True False) (example_state [])
        (example_segment [example_token 1 0.8, example_token 2 0.4])) = f32_round 0.6
   \<and> sg_confidence (segment_data (example_cfg True False) (example_state [])
        (example_segment [example_token 1 0.8, example_token 2 0.4])) = F32 (5033165 / 8388608)
   \<and> sg_confidence (segment_data (example_cfg True False) (example_state [])
        (example_segment [example_token 1 0.1, example_token 2 0.2, example_token 3 0.3]))
       = F32 (3355443 / 16777216)
   \<and> sg_confidence (segment_data (example_cfg True False) (example_state [])
        (example_segment [example_token 50364 0.5])) = F32 0"
proof -
  let ?toks = "[example_token 50364 0.5, example_token 1 0.9, example_token 2 0.9,
               example_token 3 0.1, example_token 50256 0.95]"
  have d: "detailed (example_cfg True False)" by (simp add: example_cfg_def)
  have p: "list_all probability
        (qualifying (token_eot (example_state [])) (segment_tokens (example_segment ?toks)))"
    by code_simp
  from confidence_is_trimmed_mean [of "example_cfg True False" "example_state []"
      "example_segment ?toks"] d p
  have t: "sg_confidence (segment_data (example_cfg True False) (example_state [])
        (example_segment ?toks))
       = trimmed_mean (qualifying (token_eot (example_state []))
           (segment_tokens (example_segment ?toks)))"
    by (simp add: list_all_iff)
  have e1: "sg_confidence (segment_data (example_cfg True False) (example_state [])
        (example_segment ?toks)) = f32_round 0.9"
    by (simp only: example_confidences)
  have e2: "sg_confidence (segment_data (example_cfg True False) (example_state [])
        (example_segment [example_token 1 0.8, example_token 2 0.4])) = f32_round 0.6"
    by (simp only: example_confidences)
  show ?thesis using d p t e1 e2 example_confidences(2,3,4) by blast
qed

text \<open>
  Claim C8. The start and end times of a built segment are the engine's tick values
  multiplied by 10, in the segment record and in the object handed to the host, and so are
  the start and end times of its tokens when token timestamps were requested. The times
  are stored in 32-bit integers, so the tick values are taken in the range where the
  product fits.
\<close>

theorem segment_times_are_ticks_times_ten:
  assumes "fits_int32 (segment_t0 seg * 10)" and "fits_int32 (segment_t1 seg * 10)"
    and "\<forall>t\<in>set (segment_tokens seg). fits_int32 (token_t0 t * 10) \<and> fits_int32 (token_t1 t * 10)"
  shows "sg_from_ms (segment_data cfg st seg) = segment_t0 seg * 10
       \<and> sg_to_ms (segment_data cfg st seg) = segment_t1 seg * 10
       \<and> map_of (AsObject (js_segment cfg (segment_data cfg st seg))) ''from''
            = Some (js_int (segment_t0 seg * 10))
       \<and> map_of (AsObject (js_segment cfg (segment_data cfg st seg))) ''to''
            = Some (js_int (segment_t1 seg * 10))
       \<and> (detailed cfg \<and> cfg_token_timestamps cfg \<longrightarrow>
            map tk_from_ms (sg_tokens (segment_data cfg st seg))
              = map (\<lambda>t. token_t0 t * 10) (segment_tokens seg)
          \<and> map tk_to_ms (sg_tokens (segment_data cfg st seg))
              = map (\<lambda>t. token_t1 t * 10) (segment_tokens seg))"
proof -
  have seg: "sg_from_ms (segment_data cfg st seg) = segment_t0 seg * 10"
       "sg_to_ms (segment_data cfg st seg) = segment_t1 seg * 10"
    using assms(1,2)
    by (simp_all add: segment_data_def Let_def token_loop_eq to_int32_id)
  have js: "map_of (AsObject (js_segment cfg s)) ''from'' = Some (js_int (sg_from_ms s))"
       "map_of (AsObject (js_segment cfg s)) ''to'' = Some (js_int (sg_to_ms s))" for s
    by (simp_all add: js_segment_def)
  have tok: "map tk_from_ms (sg_tokens (segment_data cfg st seg))
              = map (\<lambda>t. token_t0 t * 10) (segment_tokens seg)
          \<and> map tk_to_ms (sg_tokens (segment_data cfg st seg))
              = map (\<lambda>t. token_t1 t * 10) (segment_tokens seg)"
    if "detailed cfg" "cfg_token_timestamps cfg"
    using that assms(3)
    by (simp add: segment_data_def Let_def token_loop_eq make_token_def to_int32_id)
  show ?thesis using seg js tok by simp
qed

text \<open>A tick of 150 gives 1500 milliseconds.\<close>

theorem segment_times_are_ticks_times_ten_witness:
  "fits_int32 (segment_t0 (example_segment [example_token 1 0.9]) * 10)
   \<and> fits_int32 (segment_t1 (example_segment [example_token 1 0.9]) * 10)
   \<and> list_all (\<lambda>t. fits_int32 (token_t0 t * 10) \<and> fits_int32 (token_t1 t * 10))
        (segment_tokens (example_segment [example_token 1 0.9]))
   \<and> detailed (example_cfg True True) \<and> cfg_token_timestamps (example_cfg True True)
   \<and> segment_t0 (example_segment [example_token 1 0.9]) = 150
   \<and> sg_from_ms (segment_data (example_cfg True True) (example_state [])
        (example_segment [example_token 1 0.9])) = 1500
   \<and> sg_to_ms (segment_data (example_cfg True True) (example_state [])
        (example_segment [example_token 1 0.9])) = 3200
   \<and> map tk_from_ms (sg_tokens (segment_data (example_cfg True True) (example_state [])
        (example_segment [example_token 1 0.9]))) = [1500]
   \<and> map tk_to_ms (sg_tokens (segment_data (example_cfg True True) (example_state [])
        (example_segment [example_token 1 0.9]))) = [1700]"
  using segment_times_are_ticks_times_ten [of "example_segment [example_token 1 0.9]"
      "example_cfg True True" "example_state []"]
  by (simp add: ex_defs fits_int32_def)

section \<open>The parameter translator: strategy, language and prompt\<close>

lemma run_steps_append:
  "run_steps (xs @ ys) c = (case run_steps xs c of Inl e \<Rightarrow> Inl e | Inr m \<Rightarrow> run_steps ys m)"
  by (induction xs arbitrary: c) (auto split: sum.splits)

lemma run_steps_take_drop:
  assumes "run_steps ss c = Inr c'"
  obtains m where "run_steps (take i ss) c = Inr m" and "run_steps (drop i ss) m = Inr c'"
proof -
  have "run_steps (take i ss @ drop i ss) c = Inr c'" using assms by simp
  then show ?thesis using that
    by (auto simp only: run_steps_append split: sum.splits)
qed

lemma run_steps_preserves:
  "list_all (preserves P) ss \<Longrightarrow> run_steps ss c = Inr c' \<Longrightarrow> P c \<Longrightarrow> P c'"
proof (induction ss arbitrary: c)
  case Nil
  then show ?case by simp
next
  case (Cons s ss)
  then show ?case by (auto simp: preserves_def split: sum.splits)
qed

lemma preserves_set_field:
  "(\<And>v c. P c \<Longrightarrow> Has options key \<Longrightarrow> conv (Get options key) = Inr v
      \<Longrightarrow> P (c\<lparr>params := upd v (params c)\<rparr>))
   \<Longrightarrow> preserves P (set_field conv options key upd)"
  by (auto simp: preserves_def set_field_def split: if_splits sum.splits)

lemma length_param_steps: "length (param_steps options) = 40"
  by (simp add: param_steps_def)

lemma run_steps_phase:
  assumes run: "run_steps ss c = Inr c'" and i: "i < length ss"
    and Q: "Q c" and pre: "list_all (preserves Q) (take i ss)"
    and est: "\<And>a b. Q a \<Longrightarrow> (ss ! i) a = Inr b \<Longrightarrow> P b"
    and post: "list_all (preserves P) (drop (Suc i) ss)"
  shows "P c'"
proof -
  from run obtain m where m: "run_steps (take i ss) c = Inr m" "run_steps (drop i ss) m = Inr c'"
    by (rule run_steps_take_drop)
  have Qm: "Q m" using pre m(1) Q by (rule run_steps_preserves)
  have "drop i ss = ss ! i # drop (Suc i) ss" using i by (simp add: Cons_nth_drop_Suc)
  with m(2) obtain b where b: "(ss ! i) m = Inr b" "run_steps (drop (Suc i) ss) b = Inr c'"
    by (auto split: sum.splits)
  have "P b" using Qm b(1) by (rule est)
  with post b(2) show ?thesis by (rule run_steps_preserves)
qed

lemma parse_steps:
  "parse_full_params d options = Inr cfg \<Longrightarrow> run_steps (param_steps options) (initial_cfg d) = Inr cfg"
  by (simp add: parse_full_params_def initial_cfg_def)

lemma strategy_after_beam_size:
  assumes "parse_full_params d options = Inr cfg"
    and "Has options ''beam_size''" and "Int32Value (Get options ''beam_size'') = Inr n" and "1 < n"
  shows "strategy (params cfg) = WHISPER_SAMPLING_BEAM_SEARCH"
proof (rule run_steps_phase [where i = 35 and Q = "\<lambda>c. True"
      and P = "\<lambda>c. strategy (params c) = WHISPER_SAMPLING_BEAM_SEARCH", OF parse_steps [OF assms(1)]])
  show "35 < length (param_steps options)" by (simp add: length_param_steps)
  show "list_all (preserves (\<lambda>c. True)) (take 35 (param_steps options))"
    by (simp add: list_all_iff preserves_def)
  show "strategy (params b) = WHISPER_SAMPLING_BEAM_SEARCH"
    if "(param_steps options ! 35) a = Inr b" for a b
    using that assms(2-4) by (auto simp: param_steps_def set_field_def)
  show "list_all (preserves (\<lambda>c. strategy (params c) = WHISPER_SAMPLING_BEAM_SEARCH))
          (drop (Suc 35) (param_steps options))"
    apply (simp add: param_steps_def)
    apply (intro conjI preserves_set_field)
    apply (simp_all add: preserves_def)
    done
qed simp

lemma explicit_strategy_kept:
  assumes "parse_full_params d options = Inr cfg"
    and "Has options ''strategy''" and "Int32Value (Get options ''strategy'') = Inr s"
    and "\<not> Has options ''beam_size'' \<or> (Int32Value (Get options ''beam_size'') = Inr n \<and> n \<le> 1)"
  shows "strategy (params cfg) = s"
proof (rule run_steps_phase [where i = 0 and Q = "\<lambda>c. True"
      and P = "\<lambda>c. strategy (params c) = s", OF parse_steps [OF assms(1)]])
  show "0 < length (param_steps options)" by (simp add: length_param_steps)
  show "list_all (preserves (\<lambda>c. True)) (take 0 (param_steps options))"
    by simp
  show "strategy (params b) = s"
    if "(param_steps options ! 0) a = Inr b" for a b
    using that assms(2,3) by (auto simp: param_steps_def set_field_def)
  show "list_all (preserves (\<lambda>c. strategy (params c) = s))
          (drop (Suc 0) (param_steps options))"
    using assms(4)
    apply (simp add: param_steps_def)
    apply (intro conjI preserves_set_field)
    apply (auto simp add: preserves_def set_field_def split: if_splits sum.splits)
    done
qed simp

lemma supplied_string_eq:
  "supplied_string options key =
     (if Has options key \<and> IsString (Get options key) then Some (AsString (Get options key)) else None)"
  by (auto simp: Has_def Get_def supplied_string_def split: option.splits js_value.splits)

lemma parse_language:
  assumes "parse_full_params d options = Inr cfg"
  shows "cfg_language cfg = spec_language options"
proof -
  let ?l = "case supplied_string options ''language'' of Some l \<Rightarrow> l | None \<Rightarrow> ''auto''"
  from parse_steps [OF assms] obtain m
    where m: "run_steps (take 39 (param_steps options)) (initial_cfg d) = Inr m"
      "run_steps (drop 39 (param_steps options)) m = Inr cfg"
    by (rule run_steps_take_drop)
  have "cfg_language m = ?l"
  proof (rule run_steps_phase [where i = 24 and Q = "\<lambda>c. True"
      and P = "\<lambda>c. cfg_language c = ?l", OF m(1)])
    show "24 < length (take 39 (param_steps options))" by (simp add: length_param_steps)
    show "list_all (preserves (\<lambda>c. True)) (take 24 (take 39 (param_steps options)))"
      by (simp add: list_all_iff preserves_def)
    show "cfg_language b = ?l" if "(take 39 (param_steps options) ! 24) a = Inr b" for a b
      using that by (auto simp: param_steps_def supplied_string_eq split: if_splits)
    show "list_all (preserves (\<lambda>c. cfg_language c = ?l))
            (drop (Suc 24) (take 39 (param_steps options)))"
      apply (simp add: param_steps_def)
      apply (intro conjI preserves_set_field)
      apply (simp_all add: preserves_def)
      done
  qed simp
  moreover have "cfg = (if cfg_language m = [] then m\<lparr>cfg_language := ''auto''\<rparr> else m)"
    using m(2) by (simp add: param_steps_def split: if_splits)
  ultimately show ?thesis
    by (auto simp: spec_language_def supplied_string_def split: option.splits js_value.splits)
qed

lemma parse_initial_prompt:
  assumes "parse_full_params d options = Inr cfg"
  shows "cfg_initial_prompt cfg =
           (case supplied_string options ''initial_prompt'' of
              Some s \<Rightarrow> if s = [] then (case supplied_string options ''prompt'' of Some p \<Rightarrow> p | None \<Rightarrow> [])
                        else s
            | None \<Rightarrow> (case supplied_string options ''prompt'' of Some p \<Rightarrow> p | None \<Rightarrow> []))"
proof -
  define ip where "ip = (case supplied_string options ''initial_prompt'' of Some s \<Rightarrow> s | None \<Rightarrow> [])"
  define r where "r = (if ip = [] then (case supplied_string options ''prompt'' of Some p \<Rightarrow> p | None \<Rightarrow> [])
            else ip)"
  from parse_steps [OF assms] obtain m
    where m: "run_steps (take 36 (param_steps options)) (initial_cfg d) = Inr m"
      "run_steps (drop 36 (param_steps options)) m = Inr cfg"
    by (rule run_steps_take_drop)
  have ip: "cfg_initial_prompt m = ip"
  proof (rule run_steps_phase [where i = 23 and Q = "\<lambda>c. cfg_initial_prompt c = []"
      and P = "\<lambda>c. cfg_initial_prompt c = ip", OF m(1)])
    show "23 < length (take 36 (param_steps options))" by (simp add: length_param_steps)
    show "cfg_initial_prompt (initial_cfg d) = []" by (simp add: initial_cfg_def)
    show "list_all (preserves (\<lambda>c. cfg_initial_prompt c = [])) (take 23 (take 36 (param_steps options)))"
      apply (simp add: param_steps_def)
      apply (intro conjI preserves_set_field)
      apply (auto simp add: preserves_def set_field_def split: if_splits sum.splits)
      done
    show "cfg_initial_prompt b = ip"
      if "cfg_initial_prompt a = []" "(take 36 (param_steps options) ! 23) a = Inr b" for a b
      using that by (auto simp: ip_def param_steps_def supplied_string_eq split: if_splits)
    show "list_all (preserves (\<lambda>c. cfg_initial_prompt c = ip))
            (drop (Suc 23) (take 36 (param_steps options)))"
      apply (simp add: param_steps_def)
      apply (intro conjI preserves_set_field)
      apply (simp_all add: preserves_def)
      done
  qed
  have "cfg_initial_prompt cfg = r"
  proof (rule run_steps_phase [where i = 0 and Q = "\<lambda>c. cfg_initial_prompt c = ip"
      and P = "\<lambda>c. cfg_initial_prompt c = r", OF m(2)])
    show "0 < length (drop 36 (param_steps options))" by (simp add: length_param_steps)
    show "cfg_initial_prompt m = ip" by (rule ip)
    show "list_all (preserves (\<lambda>c. cfg_initial_prompt c = ip)) (take 0 (drop 36 (param_steps options)))"
      by simp
    show "cfg_initial_prompt b = r"
      if "cfg_initial_prompt a = ip" "(drop 36 (param_steps options) ! 0) a = Inr b" for a b
      using that by (auto simp: r_def param_steps_def supplied_string_eq split: if_splits)
    show "list_all (preserves (\<lambda>c. cfg_initial_prompt c = r))
            (drop (Suc 0) (drop 36 (param_steps options)))"
      apply (simp add: param_steps_def)
      apply (intro conjI preserves_set_field)
      apply (simp_all add: preserves_def)
      done
  qed
  then show ?thesis by (auto simp: r_def ip_def split: option.splits)
qed

lemma map_of_Has_Get: "map_of options key = Some v \<Longrightarrow> Has options key \<and> Get options key = v"
  by (simp add: Has_def Get_def)

lemmas parse_eval = parse_full_params_def param_steps_def set_field_def Has_def Get_def
  example_default_params_def example_params_def to_int32_def truncate_double_def
  WHISPER_SAMPLING_GREEDY_def WHISPER_SAMPLING_BEAM_SEARCH_def

text \<open>
  Claim C2. When \<open>beam_size\<close> is supplied and its value is greater than 1, the strategy of
  the final parameter record is beam search, whatever \<open>strategy\<close> was supplied: the
  \<open>strategy\<close> field is applied first and the override afterwards. When no override
  applies, a supplied \<open>strategy\<close> is the final one.
\<close>

theorem beam_size_forces_beam_search:
  assumes "parse_full_params d options = Inr cfg"
  shows "(map_of options ''beam_size'' = Some v \<and> Int32Value v = Inr n \<and> 1 < n
            \<longrightarrow> strategy (params cfg) = WHISPER_SAMPLING_BEAM_SEARCH)
       \<and> ((map_of options ''beam_size'' = None
            \<or> (map_of options ''beam_size'' = Some v \<and> Int32Value v = Inr n \<and> n \<le> 1))
          \<and> map_of options ''strategy'' = Some v' \<and> Int32Value v' = Inr s
            \<longrightarrow> strategy (params cfg) = s)"
proof (intro conjI impI)
  assume "map_of options ''beam_size'' = Some v \<and> Int32Value v = Inr n \<and> 1 < n"
  then show "strategy (params cfg) = WHISPER_SAMPLING_BEAM_SEARCH"
    using strategy_after_beam_size [OF assms, of n] by (auto dest: map_of_Has_Get)
next
  assume h: "(map_of options ''beam_size'' = None
            \<or> (map_of options ''beam_size'' = Some v \<and> Int32Value v = Inr n \<and> n \<le> 1))
          \<and> map_of options ''strategy'' = Some v' \<and> Int32Value v' = Inr s"
  then have "\<not> Has options ''beam_size''
      \<or> (Int32Value (Get options ''beam_size'') = Inr n \<and> n \<le> 1)"
    by (auto simp: Has_def Get_def)
  moreover have "Has options ''strategy''" "Int32Value (Get options ''strategy'') = Inr s"
    using h by (auto dest: map_of_Has_Get)
  ultimately show "strategy (params cfg) = s"
    using explicit_strategy_kept [OF assms, of s n] by blast
qed

text \<open>\<open>beam_size: 2\<close> together with \<open>strategy: greedy\<close> yields beam search;
  \<open>beam_size: 1\<close> leaves the supplied strategy.\<close>

theorem beam_size_forces_beam_search_witness:
  "\<exists>cfg cfg'.
     parse_full_params example_default_params
        [(''beam_size'', JNumber (Finite 2)),
         (''strategy'', JNumber (Finite (of_int WHISPER_SAMPLING_GREEDY)))] = Inr cfg
     \<and> map_of [(''beam_size'', JNumber (Finite 2)),
               (''strategy'', JNumber (Finite (of_int WHISPER_SAMPLING_GREEDY)))] ''beam_size''
         = Some (JNumber (Finite 2))
     \<and> Int32Value (JNumber (Finite 2)) = Inr 2 \<and> (1::int) < 2
     \<and> strategy (params cfg) = WHISPER_SAMPLING_BEAM_SEARCH
     \<and> parse_full_params example_default_params
          [(''beam_size'', JNumber (Finite 1)), (''strategy'', JNumber (Finite 1))] = Inr cfg'
     \<and> map_of [(''beam_size'', JNumber (Finite 1)), (''strategy'', JNumber (Finite 1))] ''strategy''
         = Some (JNumber (Finite 1))
     \<and> Int32Value (JNumber (Finite 1)) = Inr 1
     \<and> strategy (params cfg') = 1"
proof -
  let ?o1 = "[(''beam_size'', JNumber (Finite 2)),
             (''strategy'', JNumber (Finite (of_int WHISPER_SAMPLING_GREEDY)))]"
  let ?o2 = "[(''beam_size'', JNumber (Finite 1)), (''strategy'', JNumber (Finite 1))]"
  have "\<exists>cfg. parse_full_params example_default_params ?o1 = Inr cfg"
    by (simp add: parse_eval)
  then obtain cfg where p1: "parse_full_params example_default_params ?o1 = Inr cfg" ..
  have "\<exists>cfg. parse_full_params example_default_params ?o2 = Inr cfg"
    by (simp add: parse_eval)
  then obtain cfg' where p2: "parse_full_params example_default_params ?o2 = Inr cfg'" ..
  have h: "map_of ?o1 ''beam_size'' = Some (JNumber (Finite 2))"
    "Int32Value (JNumber (Finite 2)) = Inr 2"
    "map_of ?o2 ''beam_size'' = Some (JNumber (Finite 1))"
    "map_of ?o2 ''strategy'' = Some (JNumber (Finite 1))"
    "Int32Value (JNumber (Finite 1)) = Inr 1"
    by (simp_all add: to_int32_def truncate_double_def)
  from beam_size_forces_beam_search [OF p1, of "JNumber (Finite 2)" 2] h
  have s1: "strategy (params cfg) = WHISPER_SAMPLING_BEAM_SEARCH" by simp
  from beam_size_forces_beam_search [OF p2, of "JNumber (Finite 1)" 1 "JNumber (Finite 1)" 1] h
  have s2: "strategy (params cfg') = 1" by simp
  from p1 p2 h s1 s2 show ?thesis by simp
qed

text \<open>
  Claim C7. An \<open>initial_prompt\<close> supplied as a non-empty string is the initial prompt,
  whatever \<open>prompt\<close> is; \<open>prompt\<close> is the initial prompt when \<open>initial_prompt\<close> is
  absent, not a string or empty.
\<close>

theorem initial_prompt_has_priority:
  assumes "parse_full_params d options = Inr cfg"
  shows "(map_of options ''initial_prompt'' = Some (JString s) \<and> s \<noteq> []
            \<longrightarrow> cfg_initial_prompt cfg = s)
       \<and> ((map_of options ''initial_prompt'' = None
            \<or> (\<exists>v. map_of options ''initial_prompt'' = Some v \<and> \<not> IsString v)
            \<or> map_of options ''initial_prompt'' = Some (JString []))
          \<and> map_of options ''prompt'' = Some (JString p)
            \<longrightarrow> cfg_initial_prompt cfg = p)"
  using parse_initial_prompt [OF assms]
  by (auto simp: supplied_string_def split: option.splits js_value.splits)

text \<open>\<open>prompt: "a"\<close> alone yields \<open>a\<close>; together with \<open>initial_prompt: "b"\<close> it
  yields \<open>b\<close>.\<close>

theorem initial_prompt_has_priority_witness:
  "\<exists>cfg cfg'.
     parse_full_params example_default_params [(''prompt'', JString ''a'')] = Inr cfg
     \<and> map_of [(''prompt'', JString ''a'')] ''initial_prompt'' = None
     \<and> map_of [(''prompt'', JString ''a'')] ''prompt'' = Some (JString ''a'')
     \<and> cfg_initial_prompt cfg = ''a''
     \<and> parse_full_params example_default_params
          [(''prompt'', JString ''a''), (''initial_prompt'', JString ''b'')] = Inr cfg'
     \<and> map_of [(''prompt'', JString ''a''), (''initial_prompt'', JString ''b'')] ''initial_prompt''
          = Some (JString ''b'')
     \<and> cfg_initial_prompt cfg' = ''b''"
proof -
  let ?o1 = "[(''prompt'', JString ''a'')]"
  let ?o2 = "[(''prompt'', JString ''a''), (''initial_prompt'', JString ''b'')]"
  have "\<exists>cfg. parse_full_params example_default_params ?o1 = Inr cfg"
    by (simp add: parse_eval)
  then obtain cfg where p1: "parse_full_params example_default_params ?o1 = Inr cfg" ..
  have "\<exists>cfg. parse_full_params example_default_params ?o2 = Inr cfg"
    by (simp add: parse_eval)
  then obtain cfg' where p2: "parse_full_params example_default_params ?o2 = Inr cfg'" ..
  have "cfg_initial_prompt cfg = ''a''"
    using initial_prompt_has_priority [OF p1, of "''x''" "''a''"] by simp
  moreover have "cfg_initial_prompt cfg' = ''b''"
    using initial_prompt_has_priority [OF p2, of "''b''" "''a''"] by simp
  ultimately show ?thesis using p1 p2 by simp
qed

section \<open>The entry points\<close>

lemma load_audio_world:
  "\<exists>evs. snd (load_audio eng w options) = w\<lparr>calls := calls w @ evs\<rparr>
         \<and> (evs = [] \<or> (\<exists>f. evs = [ReadAudioData f]))"
proof (cases "extract_audio options = []")
  case False
  then have "snd (load_audio eng w options) = w\<lparr>calls := calls w @ []\<rparr>"
    by (simp add: load_audio_def)
  then show ?thesis by blast
next
  case True
  show ?thesis
  proof (cases "extract_files options")
    case Nil
    with True have "snd (load_audio eng w options) = w\<lparr>calls := calls w @ []\<rparr>"
      by (simp add: load_audio_def)
    then show ?thesis by blast
  next
    case (Cons f fs)
    with True have "snd (load_audio eng w options) = w\<lparr>calls := calls w @ [ReadAudioData f]\<rparr>"
      by (simp add: load_audio_def Let_def split: option.splits)
    then show ?thesis by blast
  qed
qed

text \<open>\<open>full_transcribe\<close> only appends to the trace: the calls of the audio stage, then at
  most the decode call, whose parameter record is the one \<open>engine_params\<close> returns.\<close>

lemma full_transcribe_world:
  "\<exists>evs. snd (full_transcribe eng w info) = w\<lparr>calls := calls w @ evs\<rparr>
     \<and> (\<forall>c p samples n k. FullParallel c p samples n k \<in> set evs \<longrightarrow>
           (\<exists>cfg. engine_params eng (AsObject (info ! 1)) = Inr cfg \<and> p = params cfg))"
proof -
  define w1 where "w1 = snd (load_audio eng w (AsObject (info ! 1)))"
  define ok where "ok = (\<lambda>p. \<exists>cfg. engine_params eng (AsObject (info ! 1)) = Inr cfg \<and> p = params cfg)"
  define w' where "w' = snd (full_transcribe eng w info)"
  from load_audio_world [of eng w "AsObject (info ! 1)"]
  obtain evs where w1: "w1 = w\<lparr>calls := calls w @ evs\<rparr>"
    and evs: "evs = [] \<or> (\<exists>f. evs = [ReadAudioData f])"
    unfolding w1_def by blast
  have "w' = w \<or> w' = w1
      \<or> (\<exists>c p samples n k. ok p \<and> w' = w1\<lparr>calls := calls w1 @ [FullParallel c p samples n k]\<rparr>)"
    unfolding w1_def ok_def w'_def
    by (auto simp add: full_transcribe_def Let_def split: sum.splits option.splits)
  then consider (same) "w' = w\<lparr>calls := calls w @ []\<rparr>"
    | (audio) "w' = w\<lparr>calls := calls w @ evs\<rparr>"
    | (decode) c p samples n k where "ok p"
        "w' = w\<lparr>calls := calls w @ (evs @ [FullParallel c p samples n k])\<rparr>"
    by (auto simp: w1)
  then have "\<exists>evs'. w' = w\<lparr>calls := calls w @ evs'\<rparr>
     \<and> (\<forall>c p samples n k. FullParallel c p samples n k \<in> set evs' \<longrightarrow> ok p)"
  proof cases
    case same
    then show ?thesis by (intro exI [of _ "[]"]) simp
  next
    case audio
    then show ?thesis using evs by (intro exI [of _ evs]) auto
  next
    case decode
    then show ?thesis using evs
      by (intro exI [of _ "evs @ [FullParallel c p samples n k]"]) auto
  qed
  then show ?thesis unfolding ok_def w'_def .
qed

lemma full_parallel_params:
  assumes "FullParallel c p samples n k \<in> set (new_calls w (snd (full_transcribe eng w info)))"
  shows "\<exists>cfg. engine_params eng (AsObject (info ! 1)) = Inr cfg \<and> p = params cfg"
proof -
  from full_transcribe_world [of eng w info] obtain evs
    where "snd (full_transcribe eng w info) = w\<lparr>calls := calls w @ evs\<rparr>"
      and "\<forall>c p samples n k. FullParallel c p samples n k \<in> set evs \<longrightarrow>
           (\<exists>cfg. engine_params eng (AsObject (info ! 1)) = Inr cfg \<and> p = params cfg)"
    by blast
  with assms show ?thesis by (simp add: new_calls_def) blast
qed

lemma full_transcribe_handles:
  "handles (snd (full_transcribe eng w info)) = handles w"
proof -
  from full_transcribe_world [of eng w info] obtain evs
    where "snd (full_transcribe eng w info) = w\<lparr>calls := calls w @ evs\<rparr>" by blast
  then show ?thesis by simp
qed

lemma spec_language_nonempty: "spec_language options \<noteq> []"
  by (auto simp: spec_language_def split: option.splits js_value.splits)

lemma engine_params_language:
  assumes "engine_params eng options = Inr cfg"
  shows "language (params cfg) = Some (c_str (spec_language options))
       \<and> cfg_language cfg = spec_language options"
proof -
  from assms obtain cfg0
    where p: "parse_full_params (whisper_full_default_params eng) options = Inr cfg0"
    by (auto simp: engine_params_def split: sum.splits)
  have "cfg_language cfg0 = spec_language options" using p by (rule parse_language)
  moreover have "spec_language options \<noteq> []" by (rule spec_language_nonempty)
  ultimately show ?thesis using assms p by (auto simp: engine_params_def Let_def)
qed

text \<open>What holds of the language in general: the \<open>std::string\<close> of the configuration is
  the language of the specification, never empty and \<open>auto\<close> by default, after the parser
  and again at the decode call, and the engine reads it up to its first NUL.\<close>

lemma decode_call_language:
  assumes "FullParallel c p samples n k \<in> set (new_calls w (snd (full_transcribe eng w info)))"
  shows "language p = Some (c_str (spec_language (AsObject (info ! 1))))"
proof -
  from assms obtain cfg' where "engine_params eng (AsObject (info ! 1)) = Inr cfg'" "p = params cfg'"
    using full_parallel_params by blast
  then show ?thesis by (simp add: engine_params_language)
qed

lemma c_str_auto: "c_str ''auto'' = ''auto''"
  by (simp add: c_str_def)

lemmas full_eval = full_transcribe_def load_audio_def engine_params_def n_processors_of_def
  unwrap_handle_def extract_audio_def extract_files_def example_engine_def example_world_def
  new_calls_def

text \<open>
  Claim C3, at the input where the code breaks it. With \<open>language\<close> the string of one NUL
  character, the \<open>std::string\<close> is not empty: the parser keeps it, neither of the two
  checks replaces it by \<open>auto\<close>, and the decode call is made. What the engine receives is
  \<open>c_str()\<close> of it, the empty string.
\<close>

theorem language_with_leading_nul_reaches_engine_empty:
  "(case parse_full_params example_default_params
           [(''audio'', JFloat32Array [Finite 0.25]), (''language'', JString [CHR 0x00])] of
      Inl e \<Rightarrow> None | Inr cfg \<Rightarrow> Some (cfg_language cfg)) = Some [CHR 0x00]
   \<and> [CHR 0x00] \<noteq> []
   \<and> map decode_language
        (new_calls (example_world False)
           (snd (full_transcribe (example_engine None) (example_world False)
              [JExternal 0, JObject [(''audio'', JFloat32Array [Finite 0.25]),
                                     (''language'', JString [CHR 0x00])]])))
       = [Some (Some [])]"
  by (simp add: full_eval parse_eval decode_language_def c_str_def)

lemma release_handle:
  "map_of (handles w) a = Some h \<Longrightarrow>
     \<exists>h'. map_of (handles (release w a h)) a = Some h' \<and> (freed h' \<or> ctx h' = None)"
  by (auto simp: release_def update_conv' split: option.splits)

lemma full_transcribe_freed:
  assumes "info \<noteq> []" "info ! 0 = JExternal a" "map_of (handles w) a = Some h"
    "freed h \<or> ctx h = None"
  shows "(\<exists>e. full_transcribe eng w info = (Inl (Throw e), w))
       \<and> (2 \<le> length info \<and> IsObject (info ! 1) \<longrightarrow>
            full_transcribe eng w info = (Inl (Throw (Error ''Model has been freed'')), w))"
  using assms
  by (auto simp: full_transcribe_def unwrap_handle_def split: option.splits)

text \<open>
  Claim C4. \<open>full_transcribe\<close> on a handle whose \<open>freed\<close> flag is set, and on any handle
  after \<open>free_model\<close> ran on it, throws and leaves the world as it was: no call reaches
  the engine. With a well-formed argument list the exception is the error
  \<open>Model has been freed\<close>.
\<close>

theorem full_on_freed_handle_fails:
  assumes "info \<noteq> []" and "info ! 0 = JExternal a" and "map_of (handles w) a = Some h"
  shows "(freed h \<longrightarrow>
            (\<exists>e. full_transcribe eng w info = (Inl (Throw e), w))
          \<and> (2 \<le> length info \<and> IsObject (info ! 1) \<longrightarrow>
               full_transcribe eng w info = (Inl (Throw (Error ''Model has been freed'')), w)))
       \<and> (fst (free_model w [JExternal a]) = Inr JUndefined
          \<and> (\<exists>e. full_transcribe eng (snd (free_model w [JExternal a])) info
                  = (Inl (Throw e), snd (free_model w [JExternal a])))
          \<and> (2 \<le> length info \<and> IsObject (info ! 1) \<longrightarrow>
               full_transcribe eng (snd (free_model w [JExternal a])) info
                 = (Inl (Throw (Error ''Model has been freed'')), snd (free_model w [JExternal a]))))"
proof -
  have fm: "free_model w [JExternal a] = (Inr JUndefined, release w a h)"
    using assms(3) by (simp add: free_model_def unwrap_handle_def)
  from release_handle [OF assms(3)] obtain h'
    where h': "map_of (handles (release w a h)) a = Some h'" "freed h' \<or> ctx h' = None"
    by blast
  show ?thesis
    using full_transcribe_freed [OF assms(1,2,3), of eng]
      full_transcribe_freed [OF assms(1,2) h', of eng] fm
    by simp
qed

text \<open>A freed handle, and a live handle after \<open>free_model\<close>: in both cases
  \<open>full_transcribe\<close> throws \<open>Model has been freed\<close> and the world stays as it is.\<close>

theorem full_on_freed_handle_fails_witness:
  "[JExternal 0, JObject []] \<noteq> []
   \<and> [JExternal 0, JObject []] ! 0 = JExternal 0
   \<and> map_of (handles (example_world True)) 0 = Some \<lparr>ctx = None, freed = True\<rparr>
   \<and> freed \<lparr>ctx = None, freed = True\<rparr>
   \<and> full_transcribe (example_engine None) (example_world True) [JExternal 0, JObject []]
       = (Inl (Throw (Error ''Model has been freed'')), example_world True)
   \<and> map_of (handles (example_world False)) 0 = Some \<lparr>ctx = Some 7, freed = False\<rparr>
   \<and> full_transcribe (example_engine None) (snd (free_model (example_world False) [JExternal 0]))
         [JExternal 0, JObject []]
       = (Inl (Throw (Error ''Model has been freed'')),
          snd (free_model (example_world False) [JExternal 0]))"
  using full_on_freed_handle_fails [of "[JExternal 0, JObject []]" 0 "example_world True"
      "\<lparr>ctx = None, freed = True\<rparr>" "example_engine None"]
    full_on_freed_handle_fails [of "[JExternal 0, JObject []]" 0 "example_world False"
      "\<lparr>ctx = Some 7, freed = False\<rparr>" "example_engine None"]
  by (simp add: example_world_def)

section \<open>The life cycle of handles\<close>

lemma list_all_update:
  "list_all P al \<Longrightarrow> P (k, v) \<Longrightarrow> list_all P (AList.update k v al)"
  by (induction al) auto

lemma list_all_delete:
  "list_all P al \<Longrightarrow> list_all P (AList.delete k al)"
  by (induction al) auto

lemma world_ok_release: "world_ok w \<Longrightarrow> world_ok (release w a h)"
  by (auto simp: world_ok_def release_def handle_ok_def intro!: list_all_update split: option.splits)

lemma init_model_world:
  "snd (init_model eng w info) = w
   \<or> (\<exists>e. snd (init_model eng w info) = w\<lparr>calls := calls w @ [e]\<rparr>)
   \<or> (\<exists>e c. snd (init_model eng w info)
         = w\<lparr>calls := calls w @ [e],
             handles := AList.update (next_handle w) \<lparr>ctx = Some c, freed = False\<rparr> (handles w),
             next_handle := next_handle w + 1\<rparr>)"
  by (auto simp add: init_model_def Let_def split: sum.splits option.splits)

text \<open>
  Claim C10. Creation, transcription, explicit free and automatic reclamation all preserve
  the invariant that a handle whose \<open>freed\<close> flag is set holds the null pointer.
\<close>

theorem freed_handle_has_null_context:
  assumes "world_ok w"
  shows "world_ok (snd (init_model eng w info))
       \<and> world_ok (snd (full_transcribe eng w info))
       \<and> world_ok (snd (free_model w info))
       \<and> world_ok (snd (wrap_handle_finalizer w ptr))"
proof (intro conjI)
  show "world_ok (snd (init_model eng w info))"
    using assms init_model_world [of eng w info]
    by (auto simp: world_ok_def handle_ok_def intro!: list_all_update)
  show "world_ok (snd (full_transcribe eng w info))"
    using assms by (simp add: world_ok_def full_transcribe_handles)
  show "world_ok (snd (free_model w info))"
    using assms by (auto simp: free_model_def world_ok_release split: sum.splits option.splits)
  show "world_ok (snd (wrap_handle_finalizer w ptr))"
    using world_ok_release [OF assms] assms
    by (auto simp: wrap_handle_finalizer_def Let_def world_ok_def intro!: list_all_delete
        split: option.splits)
qed

lemmas init_eval = init_model_def use_gpu_of_def flash_attn_of_def free_model_def wrap_handle_finalizer_def release_def
  unwrap_handle_def Has_def Get_def example_engine_def world_ok_def handle_ok_def

text \<open>The empty world is in order, and so are the worlds after \<open>init_model\<close> and after
  \<open>free_model\<close> on the new handle, which is then freed with a null context.\<close>

theorem freed_handle_has_null_context_witness:
  "world_ok \<lparr>handles = [], next_handle = 0, calls = []\<rparr>
   \<and> world_ok (snd (init_model (example_engine None) \<lparr>handles = [], next_handle = 0, calls = []\<rparr>
                 [JObject [(''model'', JString ''model.bin'')]]))
   \<and> handles (snd (free_model
         (snd (init_model (example_engine None) \<lparr>handles = [], next_handle = 0, calls = []\<rparr>
                 [JObject [(''model'', JString ''model.bin'')]])) [JExternal 0]))
       = [(0, \<lparr>ctx = None, freed = True\<rparr>)]
   \<and> world_ok (snd (free_model
         (snd (init_model (example_engine None) \<lparr>handles = [], next_handle = 0, calls = []\<rparr>
                 [JObject [(''model'', JString ''model.bin'')]])) [JExternal 0]))"
proof -
  let ?w0 = "\<lparr>handles = [], next_handle = 0, calls = []\<rparr>"
  let ?w1 = "snd (init_model (example_engine None) ?w0 [JObject [(''model'', JString ''model.bin'')]])"
  have w0: "world_ok ?w0" by (simp add: world_ok_def)
  have w1: "world_ok ?w1"
    using freed_handle_has_null_context [OF w0, of "example_engine None"
        "[JObject [(''model'', JString ''model.bin'')]]"] by simp
  have w2: "world_ok (snd (free_model ?w1 [JExternal 0]))"
    using freed_handle_has_null_context [OF w1, of _ "[JExternal 0]"] by simp
  have "handles (snd (free_model ?w1 [JExternal 0])) = [(0, \<lparr>ctx = None, freed = True\<rparr>)]"
    by (simp add: init_eval)
  with w0 w1 w2 show ?thesis by simp
qed

text \<open>
  Claim C9. In \<open>init_model\<close>, when \<open>gpu\<close> is present it decides the GPU flag of the
  model loader's call, whatever \<open>use_gpu\<close> is (a \<open>gpu\<close> that is not a boolean throws,
  again whatever \<open>use_gpu\<close> is); without \<open>gpu\<close>, \<open>use_gpu\<close> decides; without both the
  flag is true.
\<close>

theorem gpu_option_takes_precedence:
  assumes "info \<noteq> []" and "info ! 0 = JObject options"
    and "map_of options ''model'' = Some (JString model)"
    and "flash_attn_of options = Inr fa"
  shows "(map_of options ''gpu'' = Some (JBoolean g)
            \<longrightarrow> new_calls w (snd (init_model eng w info)) = [InitFromFile model g fa])
       \<and> (map_of options ''gpu'' = Some v \<and> BooleanValue v = Inl e
            \<longrightarrow> init_model eng w info = (Inl (Throw e), w))
       \<and> (map_of options ''gpu'' = None \<and> map_of options ''use_gpu'' = Some (JBoolean u)
            \<longrightarrow> new_calls w (snd (init_model eng w info)) = [InitFromFile model u fa])
       \<and> (map_of options ''gpu'' = None \<and> map_of options ''use_gpu'' = None
            \<longrightarrow> new_calls w (snd (init_model eng w info)) = [InitFromFile model True fa])"
  using assms
  by (auto simp: init_model_def use_gpu_of_def Has_def Get_def Let_def new_calls_def
      split: option.splits)

text \<open>\<open>gpu: false\<close> with \<open>use_gpu: true\<close> loads without GPU; neither option loads with
  GPU; \<open>use_gpu: false\<close> alone loads without; a \<open>gpu\<close> that is a string throws.\<close>

theorem gpu_option_takes_precedence_witness:
  "[JObject [(''model'', JString ''model.bin''), (''use_gpu'', JBoolean True),
             (''gpu'', JBoolean False)]] \<noteq> []
   \<and> map_of [(''model'', JString ''model.bin''), (''use_gpu'', JBoolean True),
             (''gpu'', JBoolean False)] ''model'' = Some (JString ''model.bin'')
   \<and> flash_attn_of [(''model'', JString ''model.bin''), (''use_gpu'', JBoolean True),
             (''gpu'', JBoolean False)] = Inr False
   \<and> map_of [(''model'', JString ''model.bin''), (''use_gpu'', JBoolean True),
             (''gpu'', JBoolean False)] ''gpu'' = Some (JBoolean False)
   \<and> new_calls (example_world False)
        (snd (init_model (example_engine None) (example_world False)
           [JObject [(''model'', JString ''model.bin''), (''use_gpu'', JBoolean True),
             (''gpu'', JBoolean False)]]))
       = [InitFromFile ''model.bin'' False False]
   \<and> new_calls (example_world False)
        (snd (init_model (example_engine None) (example_world False)
           [JObject [(''model'', JString ''model.bin'')]]))
       = [InitFromFile ''model.bin'' True False]
   \<and> new_calls (example_world False)
        (snd (init_model (example_engine None) (example_world False)
           [JObject [(''model'', JString ''model.bin''), (''use_gpu'', JBoolean False)]]))
       = [InitFromFile ''model.bin'' False False]
   \<and> BooleanValue (JString ''yes'') = Inl (StatusError napi_boolean_expected)
   \<and> init_model (example_engine None) (example_world False)
           [JObject [(''model'', JString ''model.bin''), (''use_gpu'', JBoolean True),
                     (''gpu'', JString ''yes'')]]
       = (Inl (Throw (StatusError napi_boolean_expected)), example_world False)"
  using gpu_option_takes_precedence [of
      "[JObject [(''model'', JString ''model.bin''), (''use_gpu'', JBoolean True),
             (''gpu'', JBoolean False)]]"
      "[(''model'', JString ''model.bin''), (''use_gpu'', JBoolean True), (''gpu'', JBoolean False)]"
      "''model.bin''" False False "example_world False" "example_engine None"]
    gpu_option_takes_precedence [of
      "[JObject [(''model'', JString ''model.bin'')]]"
      "[(''model'', JString ''model.bin'')]"
      "''model.bin''" False _ "example_world False" "example_engine None"]
    gpu_option_takes_precedence [of
      "[JObject [(''model'', JString ''model.bin''), (''use_gpu'', JBoolean False)]]"
      "[(''model'', JString ''model.bin''), (''use_gpu'', JBoolean False)]"
      "''model.bin''" False _ "example_world False" "example_engine None" _ _ False]
    gpu_option_takes_precedence [of
      "[JObject [(''model'', JString ''model.bin''), (''use_gpu'', JBoolean True),
                     (''gpu'', JString ''yes'')]]"
      "[(''model'', JString ''model.bin''), (''use_gpu'', JBoolean True), (''gpu'', JString ''yes'')]"
      "''model.bin''" False _ "example_world False" "example_engine None"
      "JString ''yes''" "StatusError napi_boolean_expected"]
  by (simp add: flash_attn_of_def Has_def)

lemma free_model_release:
  "info \<noteq> [] \<Longrightarrow> info ! 0 = JExternal a \<Longrightarrow> map_of (handles w) a = Some h \<Longrightarrow>
     free_model w info = (Inr JUndefined, release w a h)"
  by (simp add: free_model_def unwrap_handle_def)

lemma release_again:
  assumes "map_of (handles w) a = Some h"
  shows "\<exists>h'. map_of (handles (release w a h)) a = Some h'
            \<and> release (release w a h) a h' = release w a h
            \<and> (ctx h' = None \<or> freed h')"
proof (cases "\<exists>c. ctx h = Some c \<and> \<not> freed h")
  case True
  then obtain c where c: "ctx h = Some c" "\<not> freed h" by blast
  then have "map_of (handles (release w a h)) a = Some (h\<lparr>ctx := None, freed := True\<rparr>)"
    by (simp add: release_def update_conv')
  moreover have "release (release w a h) a (h\<lparr>ctx := None, freed := True\<rparr>) = release w a h"
    by (simp add: release_def)
  ultimately show ?thesis by simp
next
  case False
  then have "release w a h = w" by (auto simp: release_def split: option.splits)
  with assms False show ?thesis by (cases "ctx h") auto
qed

text \<open>The explicit free: \<open>free_model\<close> on a handle never throws; a second call, and any
  number of further calls, leave the world as the first call left it. On a handle as
  \<open>init_model\<close> creates it, the first call sets the flag, clears the pointer and calls
  \<open>whisper_free\<close> once; on a freed handle it does nothing.\<close>

lemma free_model_idempotent:
  assumes "info \<noteq> []" and "info ! 0 = JExternal a" and "map_of (handles w) a = Some h"
  shows "fst (free_model w info) = Inr JUndefined
       \<and> free_model (snd (free_model w info)) info = (Inr JUndefined, snd (free_model w info))
       \<and> ((\<lambda>w. snd (free_model w info)) ^^ Suc n) w = snd (free_model w info)
       \<and> (ctx h = Some c \<and> \<not> freed h \<longrightarrow>
            map_of (handles (snd (free_model w info))) a = Some \<lparr>ctx = None, freed = True\<rparr>
            \<and> new_calls w (snd (free_model w info)) = [WhisperFree c])
       \<and> (freed h \<longrightarrow> snd (free_model w info) = w)"
proof -
  let ?F = "\<lambda>w. snd (free_model w info)"
  have fm: "free_model w info = (Inr JUndefined, release w a h)"
    using assms by (rule free_model_release)
  from release_again [OF assms(3)] obtain h'
    where h': "map_of (handles (release w a h)) a = Some h'"
      "release (release w a h) a h' = release w a h" "ctx h' = None \<or> freed h'"
    by blast
  have again: "free_model (?F w) info = (Inr JUndefined, ?F w)"
    using free_model_release [OF assms(1,2) h'(1)] h'(2) fm by simp
  have iter: "(?F ^^ Suc n) w = ?F w"
  proof (induction n)
    case 0
    show ?case by simp
  next
    case (Suc n)
    have "(?F ^^ Suc (Suc n)) w = ?F ((?F ^^ Suc n) w)" by simp
    also have "\<dots> = ?F (?F w)" by (simp only: Suc.IH)
    also have "\<dots> = ?F w" using again by simp
    finally show ?case .
  qed
  have first: "map_of (handles (?F w)) a = Some \<lparr>ctx = None, freed = True\<rparr>
            \<and> new_calls w (?F w) = [WhisperFree c]" if "ctx h = Some c \<and> \<not> freed h"
    using that by (cases h) (simp add: fm release_def update_conv' new_calls_def)
  have noop: "?F w = w" if "freed h"
    using that by (simp add: fm release_def split: option.splits)
  show ?thesis using fm again iter first noop by simp
qed

text \<open>The automatic reclamation: on every handle the finalizer releases the context if
  it is still held, deletes the handle, and then its lock guard unlocks the mutex of the
  deleted handle.\<close>

lemma finalizer_unlocks_after_delete:
  assumes "map_of (handles w) a = Some h"
  shows "wrap_handle_finalizer w (Some a)
           = (Inl UnlockAfterDelete,
              (release w a h)\<lparr>handles := AList.delete a (handles (release w a h))\<rparr>)"
  using assms
  by (simp add: wrap_handle_finalizer_def unlock_guard_def Let_def delete_conv')

text \<open>
  Claim C5, at the input where the code breaks it. The finalizer on the live example
  handle, and on the same handle after an explicit free: in both cases \<open>whisper_free\<close> is
  called once in all, as the claim says, but the finalizer ends in the unlock of a
  destroyed mutex, where the claim has no crash.
\<close>

theorem finalizer_unlocks_deleted_handle:
  "wrap_handle_finalizer (example_world False) (Some 0)
     = (Inl UnlockAfterDelete,
        \<lparr>handles = [], next_handle = 1,
         calls = [InitFromFile ''model.bin'' True False, WhisperFree 7]\<rparr>)
   \<and> free_model (example_world False) [JExternal 0]
     = (Inr JUndefined,
        \<lparr>handles = [(0, \<lparr>ctx = None, freed = True\<rparr>)], next_handle = 1,
         calls = [InitFromFile ''model.bin'' True False, WhisperFree 7]\<rparr>)
   \<and> wrap_handle_finalizer (snd (free_model (example_world False) [JExternal 0])) (Some 0)
     = (Inl UnlockAfterDelete,
        \<lparr>handles = [], next_handle = 1,
         calls = [InitFromFile ''model.bin'' True False, WhisperFree 7]\<rparr>)"
  by (simp add: wrap_handle_finalizer_def unlock_guard_def free_model_def unwrap_handle_def
      release_def example_world_def)

section \<open>The audio of a call\<close>

lemma full_transcribe_decode:
  assumes "2 \<le> length info" and "IsObject (info ! 1)" and "info ! 0 = JExternal a"
    and "map_of (handles w) a = Some h" and "ctx h = Some c" and "\<not> freed h"
    and "load_audio eng w (AsObject (info ! 1)) = (Inr samples, w1)"
    and "engine_params eng (AsObject (info ! 1)) = Inr cfg"
    and "n_processors_of (AsObject (info ! 1)) = Inr np"
  shows "snd (full_transcribe eng w info)
           = w1\<lparr>calls := calls w1 @
                [FullParallel c (params cfg) samples (to_int32 (int (length samples))) np]\<rparr>"
  using assms by (auto simp add: full_transcribe_def unwrap_handle_def Let_def)

lemma full_transcribe_no_audio:
  assumes "2 \<le> length info" and "IsObject (info ! 1)" and "info ! 0 = JExternal a"
    and "map_of (handles w) a = Some h" and "ctx h = Some c" and "\<not> freed h"
    and "load_audio eng w (AsObject (info ! 1)) = (Inl e, w1)"
  shows "full_transcribe eng w info = (Inl (Throw e), w1)"
  using assms by (auto simp add: full_transcribe_def unwrap_handle_def Let_def)

text \<open>
  Claim C6, as the code has it. On a live handle: a buffer that is not empty is what the
  engine decodes, whatever \<open>fname_inp\<close> is, and the audio reader is not called; with no
  samples in the buffer and no file path the call throws \<open>No audio provided\<close> and makes
  no call at all; with no samples in the buffer and a file path whose read fails it throws
  \<open>Failed to read input audio file\<close> after the call of the reader alone; and a file path
  whose read succeeds is decoded with the samples read, however many they are.
\<close>

theorem audio_source_selection:
  assumes "2 \<le> length info" and "IsObject (info ! 1)" and "info ! 0 = JExternal a"
    and "map_of (handles w) a = Some h" and "ctx h = Some c" and "\<not> freed h"
  shows "(extract_audio (AsObject (info ! 1)) \<noteq> []
          \<and> engine_params eng (AsObject (info ! 1)) = Inr cfg
          \<and> n_processors_of (AsObject (info ! 1)) = Inr np
          \<longrightarrow> new_calls w (snd (full_transcribe eng w info))
                = [FullParallel c (params cfg) (extract_audio (AsObject (info ! 1)))
                     (to_int32 (int (length (extract_audio (AsObject (info ! 1)))))) np])
       \<and> (extract_audio (AsObject (info ! 1)) = [] \<and> extract_files (AsObject (info ! 1)) = []
          \<longrightarrow> full_transcribe eng w info
                = (Inl (Throw (Error ''No audio provided (audio buffer or fname_inp required)'')), w))
       \<and> (extract_audio (AsObject (info ! 1)) = [] \<and> extract_files (AsObject (info ! 1)) = f # fs
          \<and> read_audio_data eng (calls w) f = None
          \<longrightarrow> full_transcribe eng w info
                = (Inl (Throw (Error ''Failed to read input audio file'')),
                   w\<lparr>calls := calls w @ [ReadAudioData f]\<rparr>))
       \<and> (extract_audio (AsObject (info ! 1)) = [] \<and> extract_files (AsObject (info ! 1)) = f # fs
          \<and> read_audio_data eng (calls w) f = Some samples
          \<and> engine_params eng (AsObject (info ! 1)) = Inr cfg
          \<and> n_processors_of (AsObject (info ! 1)) = Inr np
          \<longrightarrow> new_calls w (snd (full_transcribe eng w info))
                = [ReadAudioData f,
                   FullParallel c (params cfg) samples (to_int32 (int (length samples))) np])"
proof (intro conjI impI)
  let ?o = "AsObject (info ! 1)"
  {
    assume h: "extract_audio ?o \<noteq> [] \<and> engine_params eng ?o = Inr cfg \<and> n_processors_of ?o = Inr np"
    then have "load_audio eng w ?o = (Inr (extract_audio ?o), w)"
      by (simp add: load_audio_def)
    from full_transcribe_decode [OF assms this] h
    show "new_calls w (snd (full_transcribe eng w info))
                = [FullParallel c (params cfg) (extract_audio ?o)
                     (to_int32 (int (length (extract_audio ?o)))) np]"
      by (simp add: new_calls_def)
  }
  {
    assume "extract_audio ?o = [] \<and> extract_files ?o = []"
    then have "load_audio eng w ?o
        = (Inl (Error ''No audio provided (audio buffer or fname_inp required)''), w)"
      by (simp add: load_audio_def)
    from full_transcribe_no_audio [OF assms this]
    show "full_transcribe eng w info
                = (Inl (Throw (Error ''No audio provided (audio buffer or fname_inp required)'')), w)" .
  }
  {
    assume "extract_audio ?o = [] \<and> extract_files ?o = f # fs \<and> read_audio_data eng (calls w) f = None"
    then have "load_audio eng w ?o
        = (Inl (Error ''Failed to read input audio file''), w\<lparr>calls := calls w @ [ReadAudioData f]\<rparr>)"
      by (simp add: load_audio_def)
    from full_transcribe_no_audio [OF assms this]
    show "full_transcribe eng w info
                = (Inl (Throw (Error ''Failed to read input audio file'')),
                   w\<lparr>calls := calls w @ [ReadAudioData f]\<rparr>)" .
  }
  {
    assume h: "extract_audio ?o = [] \<and> extract_files ?o = f # fs
          \<and> read_audio_data eng (calls w) f = Some samples
          \<and> engine_params eng ?o = Inr cfg \<and> n_processors_of ?o = Inr np"
    then have "load_audio eng w ?o = (Inr samples, w\<lparr>calls := calls w @ [ReadAudioData f]\<rparr>)"
      by (simp add: load_audio_def)
    from full_transcribe_decode [OF assms this] h
    show "new_calls w (snd (full_transcribe eng w info))
                = [ReadAudioData f,
                   FullParallel c (params cfg) samples (to_int32 (int (length samples))) np]"
      by (simp add: new_calls_def)
  }
qed

lemmas audio_eval = extract_audio_def extract_files_def Has_def Get_def example_world_def
  example_engine_def

text \<open>No audio at all, a file that cannot be read, a buffer next to a file path, and a
  file that is read.\<close>

theorem audio_source_selection_witness:
  "(2::nat) \<le> length [JExternal 0, JObject []]
   \<and> IsObject ([JExternal 0, JObject []] ! 1)
   \<and> map_of (handles (example_world False)) 0 = Some \<lparr>ctx = Some 7, freed = False\<rparr>
   \<and> extract_audio (AsObject ([JExternal 0, JObject []] ! 1)) = []
   \<and> extract_files (AsObject ([JExternal 0, JObject []] ! 1)) = []
   \<and> full_transcribe (example_engine None) (example_world False) [JExternal 0, JObject []]
       = (Inl (Throw (Error ''No audio provided (audio buffer or fname_inp required)'')),
          example_world False)
   \<and> extract_files (AsObject ([JExternal 0, JObject [(''fname_inp'', JString ''a.wav'')]] ! 1))
       = [''a.wav'']
   \<and> read_audio_data (example_engine None) (calls (example_world False)) ''a.wav'' = None
   \<and> full_transcribe (example_engine None) (example_world False)
         [JExternal 0, JObject [(''fname_inp'', JString ''a.wav'')]]
       = (Inl (Throw (Error ''Failed to read input audio file'')),
          (example_world False)\<lparr>calls := calls (example_world False) @ [ReadAudioData ''a.wav'']\<rparr>)
   \<and> map decode_samples (new_calls (example_world False)
         (snd (full_transcribe (example_engine None) (example_world False)
            [JExternal 0, JObject [(''audio'', JFloat32Array [Finite 0.25]),
                                   (''fname_inp'', JString ''a.wav'')]])))
       = [Some [Finite 0.25]]
   \<and> read_audio_data (example_engine (Some [Finite 0.5])) (calls (example_world False)) ''a.wav''
       = Some [Finite 0.5]
   \<and> map decode_samples (new_calls (example_world False)
         (snd (full_transcribe (example_engine (Some [Finite 0.5])) (example_world False)
            [JExternal 0, JObject [(''fname_inp'', JString ''a.wav'')]])))
       = [None, Some [Finite 0.5]]"
proof -
  let ?w = "example_world False"
  let ?eng = "example_engine None"
  let ?eng' = "example_engine (Some [Finite 0.5])"
  let ?i1 = "[JExternal 0, JObject []]"
  let ?i2 = "[JExternal 0, JObject [(''fname_inp'', JString ''a.wav'')]]"
  let ?i3 = "[JExternal 0, JObject [(''audio'', JFloat32Array [Finite 0.25]),
                                   (''fname_inp'', JString ''a.wav'')]]"
  have h: "map_of (handles ?w) 0 = Some \<lparr>ctx = Some 7, freed = False\<rparr>"
    by (simp add: example_world_def)
  have e1: "extract_audio (AsObject (?i1 ! 1)) = []" "extract_files (AsObject (?i1 ! 1)) = []"
    by (simp_all add: audio_eval)
  have e2: "extract_audio (AsObject (?i2 ! 1)) = []" "extract_files (AsObject (?i2 ! 1)) = [''a.wav'']"
    "read_audio_data ?eng (calls ?w) ''a.wav'' = None"
    "read_audio_data ?eng' (calls ?w) ''a.wav'' = Some [Finite 0.5]"
    by (simp_all add: audio_eval)
  have e3: "extract_audio (AsObject (?i3 ! 1)) = [Finite 0.25]"
    by (simp add: audio_eval)
  obtain cfg where cfg: "engine_params ?eng (AsObject (?i3 ! 1)) = Inr cfg"
    by (simp add: engine_params_def parse_eval example_engine_def)
  obtain cfg' where cfg': "engine_params ?eng' (AsObject (?i2 ! 1)) = Inr cfg'"
    by (simp add: engine_params_def parse_eval example_engine_def)
  have np: "n_processors_of (AsObject (?i3 ! 1)) = Inr 1" "n_processors_of (AsObject (?i2 ! 1)) = Inr 1"
    by (simp_all add: n_processors_of_def Has_def)
  have r1: "full_transcribe ?eng ?w ?i1
       = (Inl (Throw (Error ''No audio provided (audio buffer or fname_inp required)'')), ?w)"
    using audio_source_selection [of ?i1 0 ?w "\<lparr>ctx = Some 7, freed = False\<rparr>" 7 ?eng] h e1
    by simp
  have r2: "full_transcribe ?eng ?w ?i2
       = (Inl (Throw (Error ''Failed to read input audio file'')),
          ?w\<lparr>calls := calls ?w @ [ReadAudioData ''a.wav'']\<rparr>)"
    using audio_source_selection [of ?i2 0 ?w "\<lparr>ctx = Some 7, freed = False\<rparr>" 7 ?eng
        _ _ "''a.wav''" "[]"] h e2
    by simp
  have r3: "map decode_samples (new_calls ?w (snd (full_transcribe ?eng ?w ?i3))) = [Some [Finite 0.25]]"
    using audio_source_selection [of ?i3 0 ?w "\<lparr>ctx = Some 7, freed = False\<rparr>" 7 ?eng cfg 1]
      h e3 cfg np
    by (simp add: decode_samples_def)
  have r4: "map decode_samples (new_calls ?w (snd (full_transcribe ?eng' ?w ?i2)))
      = [None, Some [Finite 0.5]]"
    using audio_source_selection [of ?i2 0 ?w "\<lparr>ctx = Some 7, freed = False\<rparr>" 7 ?eng' cfg' 1
        "''a.wav''" "[]" "[Finite 0.5]"]
      h e2 cfg' np
    by (simp add: decode_samples_def)
  have t: "(2::nat) \<le> length ?i1 \<and> IsObject (?i1 ! 1)" by simp
  show ?thesis using t h e1 e2 r1 r2 r3 r4 by blast
qed

text \<open>
  Against claim C6 as stated: a call without buffer whose file is read with success and
  holds no samples. Neither source gives samples, yet the call does not fail: the engine
  decodes the empty sample vector and the segments are returned.
\<close>

theorem empty_file_reaches_engine:
  "extract_audio [(''fname_inp'', JString ''silence.wav'')] = []
   \<and> read_audio_data (example_engine (Some [])) (calls (example_world False)) ''silence.wav'' = Some []
   \<and> fst (full_transcribe (example_engine (Some [])) (example_world False)
            [JExternal 0, JObject [(''fname_inp'', JString ''silence.wav'')]])
       \<noteq> Inl (Throw (Error ''No audio provided (audio buffer or fname_inp required)''))
   \<and> fst (full_transcribe (example_engine (Some [])) (example_world False)
            [JExternal 0, JObject [(''fname_inp'', JString ''silence.wav'')]])
       = Inr (JArray [JObject [(''from'', js_int 1500), (''to'', js_int 3200),
                               (''text'', JString ''hello'')]])
   \<and> map decode_samples (new_calls (example_world False)
         (snd (full_transcribe (example_engine (Some [])) (example_world False)
            [JExternal 0, JObject [(''fname_inp'', JString ''silence.wav'')]])))
       = [None, Some []]"
  by (simp add: full_eval parse_eval decode_samples_def build_segments_def js_segment_def
      segment_data_def ex_defs)

end
